theory Spec2Isabelle
  imports Main "HOL-Library.Word"
begin

section \<open>Account construction helpers of zerver/lib/create\_user.py\<close>

text \<open>
  The module builds user-account objects, copies settings between two of them and
  persists a new account together with its personal Recipient and its Subscription.
  Python objects live in a store indexed by object identity and are attribute
  dictionaries, because the settings copier reads and writes attributes by name.
  The database, the clock and the operating system's random bytes are part of an
  explicit world that every operation takes and returns. An exception is a result
  \<open>Inl (error, world)\<close>: the world it carries is the one the exception leaves behind.
\<close>

subsection \<open>Values, objects and rows\<close>

type_synonym byte = "8 word"

datatype recipient_type = PERSONAL | STREAM | HUDDLE

record Realm =
  realm_id :: int
  default_language :: string
  default_twenty_four_hour_time :: bool

text \<open>
  Attribute values. \<open>PRef\<close> is a reference to another object (a bot owner, a stream),
  \<open>PDatetime\<close> a reading of the clock, and \<open>PHashed raw\<close> the value that the framework's
  password hasher stores for the raw password \<open>raw\<close>; for \<open>raw = None\<close> this is the
  framework's unusable password.
\<close>

datatype pyval =
    PNone
  | PBool bool
  | PInt int
  | PStr string
  | PDatetime int
  | PRef nat
  | PRealm Realm
  | PHashed "string option"

type_synonym pyobj = "string \<rightharpoonup> pyval"

record recipient =
  recipient_pk :: int
  type_id :: int
  type :: recipient_type

record subscription =
  subscription_pk :: int
  user_profile_id :: int
  recipient_id :: int

record database =
  user_profiles :: "(int \<times> pyobj) list"
  recipients :: "recipient list"
  subscriptions :: "subscription list"
  user_profile_seq :: int
  recipient_seq :: int
  subscription_seq :: int

record world =
  heap :: "nat \<Rightarrow> pyobj"
  next_ref :: nat
  db :: database
  clock :: int
  entropy :: "nat \<Rightarrow> byte"
  consumed :: nat

datatype error = AttributeError string | DatabaseError string

type_synonym 'a result = "(error \<times> world) + ('a \<times> world)"

text \<open>
  What the module imports and this file does not define: the two tables of setting
  names and the field defaults of the UserProfile model class, its constant
  TUTORIAL\_WAITING, the framework's email normaliser, and the checks the persistence
  layer applies to a row before it accepts it (its constraints). They are parameters
  of the model.
\<close>

record deps =
  property_types :: "string list"
  notification_setting_types :: "string list"
  field_defaults :: pyobj
  TUTORIAL_WAITING :: string
  normalize_email :: "string \<Rightarrow> string"
  user_profile_ok :: "database \<Rightarrow> pyobj \<Rightarrow> bool"
  recipient_ok :: "database \<Rightarrow> recipient \<Rightarrow> bool"
  subscription_ok :: "database \<Rightarrow> subscription \<Rightarrow> bool"

subsection \<open>Python and library primitives\<close>

definition of_opt_str :: "string option \<Rightarrow> pyval" where
  "of_opt_str x = (case x of None \<Rightarrow> PNone | Some s \<Rightarrow> PStr s)"

definition of_opt_int :: "int option \<Rightarrow> pyval" where
  "of_opt_int x = (case x of None \<Rightarrow> PNone | Some i \<Rightarrow> PInt i)"

definition of_opt_ref :: "nat option \<Rightarrow> pyval" where
  "of_opt_ref x = (case x of None \<Rightarrow> PNone | Some r \<Rightarrow> PRef r)"

text \<open>Truth value of an \<open>Optional[int]\<close>: \<open>None\<close> and \<open>0\<close> are false.\<close>

definition truthy :: "int option \<Rightarrow> bool" where
  "truthy x = (case x of None \<Rightarrow> False | Some i \<Rightarrow> i \<noteq> 0)"

definition setattr :: "nat \<Rightarrow> string \<Rightarrow> pyval \<Rightarrow> world \<Rightarrow> world" where
  "setattr r name v w = w\<lparr>heap := (heap w)(r := (heap w r)(name \<mapsto> v))\<rparr>"

definition timezone_now :: "world \<Rightarrow> int" where
  "timezone_now w = clock w"

definition os_urandom :: "nat \<Rightarrow> world \<Rightarrow> byte list \<times> world" where
  "os_urandom n w =
     (map (entropy w) [consumed w ..< consumed w + n], w\<lparr>consumed := consumed w + n\<rparr>)"

definition ascii_letters :: string where
  "ascii_letters = ''abcdefghijklmnopqrstuvwxyzABCDEFGHIJKLMNOPQRSTUVWXYZ''"

definition digits :: string where
  "digits = ''0123456789''"

definition b64_table :: string where
  "b64_table = ''ABCDEFGHIJKLMNOPQRSTUVWXYZabcdefghijklmnopqrstuvwxyz0123456789+/''"

text \<open>
  The standard encoder: every three bytes are one 24-bit group that is cut into four
  6-bit indices into the table; one or two bytes left over are padded with \<open>=\<close>.
\<close>

fun b2a_base64 :: "byte list \<Rightarrow> string" where
  "b2a_base64 (a # b # c # rest) =
     (let n = unat a * 65536 + unat b * 256 + unat c
      in [b64_table ! (n div 262144 mod 64), b64_table ! (n div 4096 mod 64),
          b64_table ! (n div 64 mod 64), b64_table ! (n mod 64)] @ b2a_base64 rest)"
| "b2a_base64 [a, b] =
     (let n = unat a * 256 + unat b
      in [b64_table ! (n div 1024 mod 64), b64_table ! (n div 16 mod 64),
          b64_table ! (n mod 16 * 4), CHR ''=''])"
| "b2a_base64 [a] =
     [b64_table ! (unat a div 4 mod 64), b64_table ! (unat a mod 4 * 16),
      CHR ''='', CHR ''='']"
| "b2a_base64 [] = []"

text \<open>
  \<open>b64encode(s, altchars)\<close> translates \<open>+\<close> to the first and \<open>/\<close> to the second
  alternate character. The library asserts that \<open>altchars\<close> has length two; the only
  caller below builds it from a two-element list.
\<close>

definition translate :: "string \<Rightarrow> char \<Rightarrow> char" where
  "translate altchars c =
     (if c = CHR ''+'' then altchars ! 0 else if c = CHR ''/'' then altchars ! 1 else c)"

definition b64encode :: "byte list \<Rightarrow> string \<Rightarrow> string" where
  "b64encode s altchars = map (translate altchars) (b2a_base64 s)"

subsection \<open>random\_api\_key\<close>

definition choices :: string where
  "choices = ascii_letters @ digits"

text \<open>One element of the list comprehension: \<open>choices[ord(os.urandom(1)) % 62]\<close>.\<close>

definition random_choice :: "world \<Rightarrow> char \<times> world" where
  "random_choice w =
     (case os_urandom 1 w of (bs, w') \<Rightarrow> (choices ! (unat (hd bs) mod 62), w'))"

definition random_altchars :: "world \<Rightarrow> string \<times> world" where
  "random_altchars w =
     (case random_choice w of (c0, w1) \<Rightarrow>
      case random_choice w1 of (c1, w2) \<Rightarrow> ([c0, c1], w2))"

definition random_api_key :: "world \<Rightarrow> string \<times> world" where
  "random_api_key w =
     (case random_altchars w of (altchars, w1) \<Rightarrow>
      case os_urandom 24 w1 of (bs, w2) \<Rightarrow> (b64encode bs altchars, w2))"

subsection \<open>copy\_user\_settings\<close>

text \<open>
  One loop of the copier: for each name, \<open>getattr\<close> on the source (an AttributeError
  when the source has no such attribute), then \<open>setattr\<close> on the target. Every read
  sees the writes made before it, as it does when both arguments are one object.
\<close>

fun copy_settings :: "string list \<Rightarrow> nat \<Rightarrow> nat \<Rightarrow> world \<Rightarrow> unit result" where
  "copy_settings [] source_profile target_profile w = Inr ((), w)"
| "copy_settings (settings_name # rest) source_profile target_profile w =
     (case heap w source_profile settings_name of
        None \<Rightarrow> Inl (AttributeError settings_name, w)
      | Some v \<Rightarrow>
          copy_settings rest source_profile target_profile
            (setattr target_profile settings_name v w))"

definition copy_user_settings :: "deps \<Rightarrow> nat \<Rightarrow> nat \<Rightarrow> world \<Rightarrow> unit result" where
  "copy_user_settings dp source_profile target_profile w =
     (case copy_settings (property_types dp) source_profile target_profile w of
        Inl e \<Rightarrow> Inl e
      | Inr (u1, w1) \<Rightarrow>
     (case copy_settings (notification_setting_types dp) source_profile target_profile w1 of
        Inl e \<Rightarrow> Inl e
      | Inr (u2, w2) \<Rightarrow>
     (case heap w2 source_profile ''full_name'' of
        None \<Rightarrow> Inl (AttributeError ''full_name'', w2)
      | Some v \<Rightarrow> Inr ((), setattr target_profile ''full_name'' v w2))))"

subsection \<open>create\_user\_profile\<close>

text \<open>
  The model constructor: a new object whose fields are the class's defaults overridden
  by the keyword arguments; its primary key is unset until the object is saved.
\<close>

definition UserProfile_init :: "deps \<Rightarrow> (string \<times> pyval) list \<Rightarrow> world \<Rightarrow> nat \<times> world" where
  "UserProfile_init dp kwargs w =
     (next_ref w,
      w\<lparr>heap := (heap w)(next_ref w := (field_defaults dp)(''id'' \<mapsto> PNone) ++ map_of kwargs),
        next_ref := Suc (next_ref w)\<rparr>)"

definition set_password :: "nat \<Rightarrow> string option \<Rightarrow> world \<Rightarrow> world" where
  "set_password r raw_password w = setattr r ''password'' (PHashed raw_password) w"

definition has_usable_password :: "pyobj \<Rightarrow> bool" where
  "has_usable_password obj =
     (case obj ''password'' of Some (PHashed (Some raw)) \<Rightarrow> True | _ \<Rightarrow> False)"

definition ujson_dumps_list :: "string list \<Rightarrow> string" where
  "ujson_dumps_list items =
     ''['' @ concat (case items of [] \<Rightarrow> [] | x # xs \<Rightarrow> x # map (\<lambda>y. '','' @ y) xs) @ '']''"

definition create_user_profile ::
  "deps \<Rightarrow> Realm \<Rightarrow> string \<Rightarrow> string option \<Rightarrow> bool \<Rightarrow> int option \<Rightarrow> string \<Rightarrow> string \<Rightarrow>
   nat option \<Rightarrow> bool \<Rightarrow> string option \<Rightarrow> string option \<Rightarrow> string option \<Rightarrow> bool \<Rightarrow>
   world \<Rightarrow> nat \<times> world" where
  "create_user_profile dp realm email password active bot_type full_name short_name
     bot_owner is_mirror_dummy tos_version timezone tutorial_status enter_sends w =
     (let now = timezone_now w;
          email' = normalize_email dp email
      in case UserProfile_init dp
           [(''email'', PStr email'), (''is_staff'', PBool False), (''is_active'', PBool active),
            (''full_name'', PStr full_name), (''short_name'', PStr short_name),
            (''last_login'', PDatetime now), (''date_joined'', PDatetime now),
            (''realm'', PRealm realm),
            (''pointer'', PInt (- 1)), (''is_bot'', PBool (truthy bot_type)),
            (''bot_type'', of_opt_int bot_type),
            (''bot_owner'', of_opt_ref bot_owner), (''is_mirror_dummy'', PBool is_mirror_dummy),
            (''tos_version'', of_opt_str tos_version), (''timezone'', of_opt_str timezone),
            (''tutorial_status'', of_opt_str tutorial_status),
            (''enter_sends'', PBool enter_sends),
            (''onboarding_steps'', PStr (ujson_dumps_list [])),
            (''default_language'', PStr (default_language realm)),
            (''twenty_four_hour_time'', PBool (default_twenty_four_hour_time realm))] w of
         (user_profile, w1) \<Rightarrow>
           (let password' = (if truthy bot_type \<or> \<not> active then None else password);
                w2 = set_password user_profile password' w1
            in case random_api_key w2 of
                 (key, w3) \<Rightarrow> (user_profile, setattr user_profile ''api_key'' (PStr key) w3)))"

subsection \<open>The persistence layer\<close>

text \<open>
  \<open>save\<close> on an object without a primary key inserts a row under the next key of the
  table's sequence and writes the key back to the object; on an object with a key it
  replaces the row of that key, or inserts one when there is none. A row the layer
  rejects raises and changes nothing.
\<close>

definition save :: "deps \<Rightarrow> nat \<Rightarrow> world \<Rightarrow> unit result" where
  "save dp r w =
     (let obj = heap w r; d = db w
      in if \<not> user_profile_ok dp d obj then Inl (DatabaseError ''UserProfile'', w)
         else case obj ''id'' of
           Some (PInt k) \<Rightarrow>
             Inr ((), w\<lparr>db := d\<lparr>user_profiles :=
               (if k \<in> fst ` set (user_profiles d)
                then map (\<lambda>row. if fst row = k then (k, obj) else row) (user_profiles d)
                else user_profiles d @ [(k, obj)])\<rparr>\<rparr>)
         | _ \<Rightarrow>
             (let pk = user_profile_seq d; obj' = obj(''id'' \<mapsto> PInt pk)
              in Inr ((), w\<lparr>heap := (heap w)(r := obj'),
                            db := d\<lparr>user_profiles := user_profiles d @ [(pk, obj')],
                                   user_profile_seq := pk + 1\<rparr>\<rparr>)))"

definition Recipient_objects_create ::
  "deps \<Rightarrow> pyval \<Rightarrow> recipient_type \<Rightarrow> world \<Rightarrow> recipient result" where
  "Recipient_objects_create dp type_id_value ty w =
     (case type_id_value of
        PInt k \<Rightarrow>
          (let d = db w; row = \<lparr>recipient_pk = recipient_seq d, type_id = k, type = ty\<rparr>
           in if recipient_ok dp d row
              then Inr (row, w\<lparr>db := d\<lparr>recipients := recipients d @ [row],
                                         recipient_seq := recipient_seq d + 1\<rparr>\<rparr>)
              else Inl (DatabaseError ''Recipient'', w))
      | _ \<Rightarrow> Inl (DatabaseError ''Recipient'', w))"

definition Subscription_objects_create ::
  "deps \<Rightarrow> nat \<Rightarrow> recipient \<Rightarrow> world \<Rightarrow> subscription result" where
  "Subscription_objects_create dp user_profile rcp w =
     (case heap w user_profile ''id'' of
        Some (PInt k) \<Rightarrow>
          (let d = db w;
               row = \<lparr>subscription_pk = subscription_seq d, user_profile_id = k,
                      recipient_id = recipient_pk rcp\<rparr>
           in if subscription_ok dp d row
              then Inr (row, w\<lparr>db := d\<lparr>subscriptions := subscriptions d @ [row],
                                         subscription_seq := subscription_seq d + 1\<rparr>\<rparr>)
              else Inl (DatabaseError ''Subscription'', w))
      | _ \<Rightarrow> Inl (DatabaseError ''Subscription'', w))"

subsection \<open>create\_user\<close>

definition create_user ::
  "deps \<Rightarrow> string \<Rightarrow> string option \<Rightarrow> Realm \<Rightarrow> string \<Rightarrow> string \<Rightarrow> bool \<Rightarrow> bool \<Rightarrow>
   int option \<Rightarrow> nat option \<Rightarrow> string option \<Rightarrow> string \<Rightarrow> string \<Rightarrow> bool \<Rightarrow>
   nat option \<Rightarrow> nat option \<Rightarrow> bool option \<Rightarrow> nat option \<Rightarrow> world \<Rightarrow> nat result" where
  "create_user dp email password realm full_name short_name active is_realm_admin
     bot_type bot_owner tos_version timezone avatar_source is_mirror_dummy
     default_sending_stream default_events_register_stream default_all_public_streams
     source_profile w =
     (case create_user_profile dp realm email password active bot_type full_name short_name
             bot_owner is_mirror_dummy tos_version (Some timezone)
             (Some (TUTORIAL_WAITING dp)) False w of
        (user_profile, w1) \<Rightarrow>
     (let w2 = setattr user_profile ''is_realm_admin'' (PBool is_realm_admin) w1;
          w3 = setattr user_profile ''avatar_source'' (PStr avatar_source) w2;
          w4 = setattr user_profile ''timezone'' (PStr timezone) w3;
          w5 = setattr user_profile ''default_sending_stream''
                 (of_opt_ref default_sending_stream) w4;
          w6 = setattr user_profile ''default_events_register_stream''
                 (of_opt_ref default_events_register_stream) w5;
          w7 = (case default_all_public_streams of
                  None \<Rightarrow> w6
                | Some b \<Rightarrow> setattr user_profile ''default_all_public_streams'' (PBool b) w6)
      in case (case source_profile of
                 None \<Rightarrow> Inr ((), w7)
               | Some src \<Rightarrow> copy_user_settings dp src user_profile w7) of
           Inl e \<Rightarrow> Inl e
         | Inr (u, w8) \<Rightarrow>
      (case save dp user_profile w8 of
           Inl e \<Rightarrow> Inl e
         | Inr (u', w9) \<Rightarrow>
      (case heap w9 user_profile ''id'' of
           None \<Rightarrow> Inl (AttributeError ''id'', w9)
         | Some pk \<Rightarrow>
      (case Recipient_objects_create dp pk PERSONAL w9 of
           Inl e \<Rightarrow> Inl e
         | Inr (rcp, w10) \<Rightarrow>
      (case Subscription_objects_create dp user_profile rcp w10 of
           Inl e \<Rightarrow> Inl e
         | Inr (sub, w11) \<Rightarrow> Inr (user_profile, w11)))))))"

subsection \<open>Vocabulary of the properties\<close>

text \<open>The object a constructor call returns, and the world an outcome leaves behind.\<close>

definition returned_profile :: "nat \<times> world \<Rightarrow> pyobj" where
  "returned_profile res = heap (snd res) (fst res)"

definition outcome_world :: "'a result \<Rightarrow> world" where
  "outcome_world res = (case res of Inl (e, w) \<Rightarrow> w | Inr (x, w) \<Rightarrow> w)"

text \<open>Every attribute name the copier touches, in the order it touches them.\<close>

definition settings_names :: "deps \<Rightarrow> string list" where
  "settings_names dp = property_types dp @ notification_setting_types dp @ [''full_name'']"

definition copied :: "string list \<Rightarrow> pyobj \<Rightarrow> pyobj \<Rightarrow> pyobj" where
  "copied names src tgt = (\<lambda>n. if n \<in> set names then src n else tgt n)"

text \<open>
  The part of \<open>create_user\<close> after the assignments: the optional overlay, the save and
  the two related rows. It is \<open>create_user\<close>'s own text from that point on (lemma
  \<open>create_user_eq\<close>), named so that it can be reasoned about for any prepared object.
\<close>

definition finish_create :: "deps \<Rightarrow> nat \<Rightarrow> nat option \<Rightarrow> world \<Rightarrow> nat result" where
  "finish_create dp user_profile source_profile w7 =
     (case (case source_profile of
              None \<Rightarrow> Inr ((), w7)
            | Some src \<Rightarrow> copy_user_settings dp src user_profile w7) of
        Inl e \<Rightarrow> Inl e
      | Inr (u, w8) \<Rightarrow>
     (case save dp user_profile w8 of
        Inl e \<Rightarrow> Inl e
      | Inr (u', w9) \<Rightarrow>
     (case heap w9 user_profile ''id'' of
        None \<Rightarrow> Inl (AttributeError ''id'', w9)
      | Some pk \<Rightarrow>
     (case Recipient_objects_create dp pk PERSONAL w9 of
        Inl e \<Rightarrow> Inl e
      | Inr (rcp, w10) \<Rightarrow>
     (case Subscription_objects_create dp user_profile rcp w10 of
        Inl e \<Rightarrow> Inl e
      | Inr (sub, w11) \<Rightarrow> Inr (user_profile, w11))))))"

text \<open>
  The six assignment statements of \<open>create_user\<close> between the constructor call and
  the overlay, as one function of the world the constructor returned (lemma
  \<open>create_user_eq\<close> shows that \<open>create_user\<close> is the composition).
\<close>

definition assignments ::
  "nat \<Rightarrow> bool \<Rightarrow> string \<Rightarrow> string \<Rightarrow> nat option \<Rightarrow> nat option \<Rightarrow> bool option \<Rightarrow>
   world \<Rightarrow> world" where
  "assignments user_profile is_realm_admin avatar_source timezone default_sending_stream
     default_events_register_stream default_all_public_streams w1 =
     (let w2 = setattr user_profile ''is_realm_admin'' (PBool is_realm_admin) w1;
          w3 = setattr user_profile ''avatar_source'' (PStr avatar_source) w2;
          w4 = setattr user_profile ''timezone'' (PStr timezone) w3;
          w5 = setattr user_profile ''default_sending_stream''
                 (of_opt_ref default_sending_stream) w4;
          w6 = setattr user_profile ''default_events_register_stream''
                 (of_opt_ref default_events_register_stream) w5
      in case default_all_public_streams of
           None \<Rightarrow> w6
         | Some b \<Rightarrow> setattr user_profile ''default_all_public_streams'' (PBool b) w6)"

text \<open>The attributes of the profile a call returned; no attributes when it raised.\<close>

definition result_profile :: "nat result \<Rightarrow> pyobj" where
  "result_profile res = (case res of Inl e \<Rightarrow> Map.empty | Inr (r, w) \<Rightarrow> heap w r)"

text \<open>The exception a call raised, if it raised one.\<close>

definition raised :: "'a result \<Rightarrow> error option" where
  "raised res = (case res of Inl (e, w) \<Rightarrow> Some e | Inr x \<Rightarrow> None)"

text \<open>
  A database in which the rows that refer to a user profile refer to a key its
  sequence has already handed out. The empty database is one, and \<open>create_user\<close>
  keeps it so (lemma \<open>create_user_keeps_issued_keys\<close>).
\<close>

definition refs_issued_keys :: "database \<Rightarrow> bool" where
  "refs_issued_keys d \<longleftrightarrow>
     list_all (\<lambda>rc. type rc = PERSONAL \<longrightarrow> type_id rc < user_profile_seq d) (recipients d)
     \<and> list_all (\<lambda>s. user_profile_id s < user_profile_seq d) (subscriptions d)"

definition personal_recipients_of :: "database \<Rightarrow> int \<Rightarrow> recipient list" where
  "personal_recipients_of d uid =
     filter (\<lambda>rc. type rc = PERSONAL \<and> type_id rc = uid) (recipients d)"

definition subscriptions_linking :: "database \<Rightarrow> int \<Rightarrow> int \<Rightarrow> subscription list" where
  "subscriptions_linking d uid rid =
     filter (\<lambda>s. user_profile_id s = uid \<and> recipient_id s = rid) (subscriptions d)"

subsection \<open>A concrete installation\<close>

text \<open>
  A small instance on which the theorems are exercised: one preference and one
  notification setting, a persistence layer that enforces the uniqueness of a
  Recipient's (type, type\_id), and a world with a saved account (Bob, key 1, with his
  Recipient and Subscription) and an unsaved one (Carol).
\<close>

definition ex_deps :: deps where
  "ex_deps =
     \<lparr>property_types = [''timezone''],
      notification_setting_types = [''enable_sounds''],
      field_defaults = [''enable_sounds'' \<mapsto> PBool True,
                        ''default_all_public_streams'' \<mapsto> PBool False],
      TUTORIAL_WAITING = ''W'',
      normalize_email = (\<lambda>e. e),
      user_profile_ok = (\<lambda>d obj. True),
      recipient_ok = (\<lambda>d rc. list_all (\<lambda>x. type x \<noteq> type rc \<or> type_id x \<noteq> type_id rc)
                                (recipients d)),
      subscription_ok = (\<lambda>d s. True)\<rparr>"

definition ex_realm :: Realm where
  "ex_realm = \<lparr>realm_id = 1, default_language = ''en'', default_twenty_four_hour_time = False\<rparr>"

definition ex_source :: pyobj where
  "ex_source = [''id'' \<mapsto> PInt 1, ''email'' \<mapsto> PStr ''bob@example.com'',
                ''full_name'' \<mapsto> PStr ''Bob'', ''timezone'' \<mapsto> PStr ''UTC'',
                ''enable_sounds'' \<mapsto> PBool False]"

definition ex_target :: pyobj where
  "ex_target = [''id'' \<mapsto> PNone, ''email'' \<mapsto> PStr ''carol@example.com'',
                ''full_name'' \<mapsto> PStr ''Carol'', ''timezone'' \<mapsto> PStr ''Europe/Paris'',
                ''enable_sounds'' \<mapsto> PBool True]"

definition ex_db :: database where
  "ex_db =
     \<lparr>user_profiles = [(1, ex_source)],
      recipients = [\<lparr>recipient_pk = 1, type_id = 1, type = PERSONAL\<rparr>],
      subscriptions = [\<lparr>subscription_pk = 1, user_profile_id = 1, recipient_id = 1\<rparr>],
      user_profile_seq = 2, recipient_seq = 2, subscription_seq = 2\<rparr>"

definition ex_world :: world where
  "ex_world =
     \<lparr>heap = (\<lambda>r. Map.empty)(0 := ex_source, 1 := ex_target), next_ref = 2, db = ex_db,
      clock = 1541355000, entropy = (\<lambda>i. of_nat (7 * i + 3)), consumed = 0\<rparr>"

text \<open>
  The same world with an orphaned personal Recipient that already carries the key the
  next profile will get, so that the layer rejects the new profile's Recipient.
\<close>

definition ex_world_orphan :: world where
  "ex_world_orphan =
     ex_world\<lparr>db := ex_db\<lparr>recipients :=
       [\<lparr>recipient_pk = 1, type_id = 1, type = PERSONAL\<rparr>,
        \<lparr>recipient_pk = 2, type_id = 2, type = PERSONAL\<rparr>], recipient_seq := 3\<rparr>\<rparr>"

section \<open>Properties\<close>

subsection \<open>The API key\<close>

lemma length_b2a_base64: "length (b2a_base64 bs) = 4 * ((length bs + 2) div 3)"
proof (induction bs rule: b2a_base64.induct)
  case (1 a b c rest)
  have "(length rest + 5) div 3 = Suc ((length rest + 2) div 3)" by arith
  with 1 show ?case by (simp add: Let_def add.commute)
qed (simp_all add: Let_def)

lemma length_b64_table: "length b64_table = 64"
  by (simp add: b64_table_def)

lemma length_choices: "length choices = 62"
  by (simp add: choices_def ascii_letters_def digits_def)

lemma b64_table_nth_mem: "b64_table ! (k mod 64) \<in> set b64_table"
  by (rule nth_mem) (simp add: length_b64_table)

lemma choices_nth_mem: "choices ! (k mod 62) \<in> set choices"
  by (rule nth_mem) (simp add: length_choices)

lemma set_b2a_base64: "length bs mod 3 = 0 \<Longrightarrow> set (b2a_base64 bs) \<subseteq> set b64_table"
proof (induction bs rule: b2a_base64.induct)
  case (1 a b c rest)
  have "length rest mod 3 = 0" using "1.prems" by (simp add: mod_Suc split: if_splits)
  with "1.IH" have "set (b2a_base64 rest) \<subseteq> set b64_table" by simp
  then show ?case by (simp add: Let_def b64_table_nth_mem)
qed simp_all

lemma set_b64_table: "set b64_table = set choices \<union> {CHR ''+'', CHR ''/''}"
  by (auto simp: b64_table_def choices_def ascii_letters_def digits_def)

lemma translate_in_choices:
  assumes "c \<in> set b64_table" "length altchars = 2" "set altchars \<subseteq> set choices"
  shows "translate altchars c \<in> set choices"
proof -
  have "altchars ! 0 \<in> set choices" "altchars ! 1 \<in> set choices"
    using assms(2,3) by (auto simp: subset_iff)
  then show ?thesis using assms(1) by (auto simp: translate_def set_b64_table)
qed

lemma random_choice_eq:
  "random_choice w =
     (choices ! (unat (entropy w (consumed w)) mod 62), w\<lparr>consumed := consumed w + 1\<rparr>)"
  by (simp add: random_choice_def os_urandom_def)

lemma random_altchars_eq:
  "random_altchars w =
     ([choices ! (unat (entropy w (consumed w)) mod 62),
       choices ! (unat (entropy w (consumed w + 1)) mod 62)], w\<lparr>consumed := consumed w + 2\<rparr>)"
  by (simp add: random_altchars_def random_choice_eq)

lemma random_api_key_eq:
  "random_api_key w =
     (b64encode (map (entropy w) [consumed w + 2 ..< consumed w + 26])
        [choices ! (unat (entropy w (consumed w)) mod 62),
         choices ! (unat (entropy w (consumed w + 1)) mod 62)],
      w\<lparr>consumed := consumed w + 26\<rparr>)"
  by (simp add: random_api_key_def random_altchars_eq os_urandom_def add.commute)

text \<open>
  C7. Every key returned by \<open>random_api_key\<close> is the base64 encoding of the 24 bytes
  read last from the random source, under the two alternate characters chosen from
  the letters and digits by the two bytes read first. It has 32 characters, each a
  letter or a digit, and letters and digits belong to the standard base64 alphabet:
  the key is a valid unpadded base64 string of fixed length.
\<close>

theorem random_api_key_base64:
  "fst (random_api_key w) =
     b64encode (map (entropy w) [consumed w + 2 ..< consumed w + 26])
       [choices ! (unat (entropy w (consumed w)) mod 62),
        choices ! (unat (entropy w (consumed w + 1)) mod 62)]
   \<and> length (map (entropy w) [consumed w + 2 ..< consumed w + 26]) = 24
   \<and> choices ! (unat (entropy w (consumed w)) mod 62) \<in> set (ascii_letters @ digits)
   \<and> choices ! (unat (entropy w (consumed w + 1)) mod 62) \<in> set (ascii_letters @ digits)
   \<and> length (fst (random_api_key w)) = 32
   \<and> set (fst (random_api_key w)) \<subseteq> set (ascii_letters @ digits)
   \<and> set (ascii_letters @ digits) \<subseteq> set b64_table"
proof -
  let ?bs = "map (entropy w) [consumed w + 2 ..< consumed w + 26]"
  let ?alt = "[choices ! (unat (entropy w (consumed w)) mod 62),
        choices ! (unat (entropy w (consumed w + 1)) mod 62)]"
  have len: "length ?bs = 24" by simp
  have alt: "length ?alt = 2" "set ?alt \<subseteq> set choices" by (simp_all add: choices_nth_mem)
  have "set (b2a_base64 ?bs) \<subseteq> set b64_table" by (rule set_b2a_base64) (simp add: len)
  then have "set (b64encode ?bs ?alt) \<subseteq> set choices"
    unfolding b64encode_def using translate_in_choices[OF _ alt] by auto
  moreover have "length (b64encode ?bs ?alt) = 32"
    by (simp add: b64encode_def length_b2a_base64)
  moreover have "set choices \<subseteq> set b64_table" by (auto simp: set_b64_table)
  moreover have "set (ascii_letters @ digits) = set choices" by (simp add: choices_def)
  moreover have "choices ! (unat (entropy w (consumed w)) mod 62) \<in> set choices"
    "choices ! (unat (entropy w (consumed w + 1)) mod 62) \<in> set choices"
    by (rule choices_nth_mem)+
  ultimately show ?thesis using len by (simp add: random_api_key_eq)
qed

subsection \<open>The settings copier\<close>

lemma outcome_world_simps [simp]:
  "outcome_world (Inl (e, w)) = w" "outcome_world (Inr (x, w)) = w"
  by (simp_all add: outcome_world_def)

lemma copy_settings_append:
  "copy_settings (xs @ ys) s t w =
     (case copy_settings xs s t w of Inl e \<Rightarrow> Inl e | Inr (u, w1) \<Rightarrow> copy_settings ys s t w1)"
  by (induction xs arbitrary: w) (auto split: option.splits)

lemma copy_user_settings_eq:
  "copy_user_settings dp s t w = copy_settings (settings_names dp) s t w"
  by (auto simp: copy_user_settings_def settings_names_def copy_settings_append
           split: sum.splits option.splits)

lemma copy_settings_ok:
  "\<forall>n \<in> set names. heap w s n \<noteq> None \<Longrightarrow>
   copy_settings names s t w =
     Inr ((), w\<lparr>heap := (heap w)(t := copied names (heap w s) (heap w t))\<rparr>)"
proof (induction names arbitrary: w)
  case Nil
  have "copied [] (heap w s) (heap w t) = heap w t" by (simp add: copied_def)
  then show ?case by simp
next
  case (Cons n names)
  from Cons.prems obtain v where v: "heap w s n = Some v" by auto
  let ?w1 = "setattr t n v w"
  have pres: "\<forall>m \<in> set names. heap ?w1 s m \<noteq> None"
    using Cons.prems by (auto simp: setattr_def)
  have eq: "copied names (heap ?w1 s) (heap ?w1 t) = copied (n # names) (heap w s) (heap w t)"
    using v by (auto simp: copied_def setattr_def fun_eq_iff)
  have "copy_settings (n # names) s t w = copy_settings names s t ?w1" using v by simp
  also have "\<dots> = Inr ((), ?w1\<lparr>heap := (heap ?w1)(t := copied names (heap ?w1 s) (heap ?w1 t))\<rparr>)"
    by (rule Cons.IH[OF pres])
  also have "\<dots> = Inr ((), w\<lparr>heap := (heap w)(t := copied (n # names) (heap w s) (heap w t))\<rparr>)"
    unfolding eq by (simp add: setattr_def)
  finally show ?case .
qed

lemma copy_settings_frame:
  "outcome_world (copy_settings names s t w) =
     w\<lparr>heap := (heap w)(t := heap (outcome_world (copy_settings names s t w)) t)\<rparr>
   \<and> heap (outcome_world (copy_settings names s t w)) s = heap w s
   \<and> heap (outcome_world (copy_settings names s t w)) t |` (- set names) =
       heap w t |` (- set names)"
proof (induction names arbitrary: w)
  case Nil
  show ?case by simp
next
  case (Cons n names)
  show ?case
  proof (cases "heap w s n")
    case None
    then show ?thesis by simp
  next
    case (Some v)
    let ?w1 = "setattr t n v w"
    let ?w' = "outcome_world (copy_settings names s t ?w1)"
    have step: "outcome_world (copy_settings (n # names) s t w) = ?w'" using Some by simp
    have s1: "heap ?w1 s = heap w s" using Some by (auto simp: setattr_def fun_eq_iff)
    note IH = Cons.IH[of ?w1]
    have a: "?w' = w\<lparr>heap := (heap w)(t := heap ?w' t)\<rparr>"
    proof -
      have "?w' = ?w1\<lparr>heap := (heap ?w1)(t := heap ?w' t)\<rparr>" using IH by blast
      also have "\<dots> = w\<lparr>heap := (heap w)(t := heap ?w' t)\<rparr>" by (simp add: setattr_def)
      finally show ?thesis .
    qed
    have b: "heap ?w' s = heap w s" using IH s1 by simp
    have "heap ?w' t |` (- set names) = heap ?w1 t |` (- set names)" using IH by blast
    then have c: "heap ?w' t |` (- set (n # names)) = heap w t |` (- set (n # names))"
      by (auto simp: restrict_map_def fun_eq_iff setattr_def split: if_splits)
    show ?thesis unfolding step using a b c by blast
  qed
qed

lemma copy_settings_InrD:
  assumes "copy_settings names s t w = Inr (u, w')"
  shows "\<forall>n \<in> set names. heap w s n \<noteq> None"
  using assms
proof (induction names arbitrary: w)
  case Nil
  show ?case by simp
next
  case (Cons n names)
  from Cons.prems obtain v where v: "heap w s n = Some v"
    by (cases "heap w s n") auto
  have "heap (setattr t n v w) s = heap w s" using v by (auto simp: setattr_def fun_eq_iff)
  moreover have "\<forall>m \<in> set names. heap (setattr t n v w) s m \<noteq> None"
    using Cons.prems v by (intro Cons.IH) simp
  ultimately show ?case using v by simp
qed

subsection \<open>The profile constructor\<close>

lemma create_user_profile_eq:
  "create_user_profile dp realm email password active bot_type full_name short_name
     bot_owner is_mirror_dummy tos_version timezone tutorial_status enter_sends w =
   (next_ref w,
    w\<lparr>heap := (heap w)(next_ref w :=
         ((field_defaults dp)(''id'' \<mapsto> PNone) ++ map_of
           [(''email'', PStr (normalize_email dp email)), (''is_staff'', PBool False),
            (''is_active'', PBool active),
            (''full_name'', PStr full_name), (''short_name'', PStr short_name),
            (''last_login'', PDatetime (clock w)), (''date_joined'', PDatetime (clock w)),
            (''realm'', PRealm realm),
            (''pointer'', PInt (- 1)), (''is_bot'', PBool (truthy bot_type)),
            (''bot_type'', of_opt_int bot_type),
            (''bot_owner'', of_opt_ref bot_owner), (''is_mirror_dummy'', PBool is_mirror_dummy),
            (''tos_version'', of_opt_str tos_version), (''timezone'', of_opt_str timezone),
            (''tutorial_status'', of_opt_str tutorial_status),
            (''enter_sends'', PBool enter_sends),
            (''onboarding_steps'', PStr (ujson_dumps_list [])),
            (''default_language'', PStr (default_language realm)),
            (''twenty_four_hour_time'', PBool (default_twenty_four_hour_time realm))])
         (''password'' \<mapsto> PHashed (if truthy bot_type \<or> \<not> active then None else password),
          ''api_key'' \<mapsto> PStr (fst (random_api_key w)))),
      next_ref := Suc (next_ref w), consumed := consumed w + 26\<rparr>)"
  by (simp add: create_user_profile_def Let_def UserProfile_init_def set_password_def
        setattr_def random_api_key_eq timezone_now_def del: map_of.simps)

lemma returned_profile_create_user_profile:
  "returned_profile (create_user_profile dp realm email password active bot_type full_name
     short_name bot_owner is_mirror_dummy tos_version timezone tutorial_status enter_sends w) =
         ((field_defaults dp)(''id'' \<mapsto> PNone) ++ map_of
           [(''email'', PStr (normalize_email dp email)), (''is_staff'', PBool False),
            (''is_active'', PBool active),
            (''full_name'', PStr full_name), (''short_name'', PStr short_name),
            (''last_login'', PDatetime (clock w)), (''date_joined'', PDatetime (clock w)),
            (''realm'', PRealm realm),
            (''pointer'', PInt (- 1)), (''is_bot'', PBool (truthy bot_type)),
            (''bot_type'', of_opt_int bot_type),
            (''bot_owner'', of_opt_ref bot_owner), (''is_mirror_dummy'', PBool is_mirror_dummy),
            (''tos_version'', of_opt_str tos_version), (''timezone'', of_opt_str timezone),
            (''tutorial_status'', of_opt_str tutorial_status),
            (''enter_sends'', PBool enter_sends),
            (''onboarding_steps'', PStr (ujson_dumps_list [])),
            (''default_language'', PStr (default_language realm)),
            (''twenty_four_hour_time'', PBool (default_twenty_four_hour_time realm))])
         (''password'' \<mapsto> PHashed (if truthy bot_type \<or> \<not> active then None else password),
          ''api_key'' \<mapsto> PStr (fst (random_api_key w)))"
  unfolding create_user_profile_eq returned_profile_def by simp

lemma create_user_eq:
  "create_user dp email password realm full_name short_name active is_realm_admin
     bot_type bot_owner tos_version timezone avatar_source is_mirror_dummy
     default_sending_stream default_events_register_stream default_all_public_streams
     source_profile w =
   finish_create dp (next_ref w) source_profile
     (assignments (next_ref w) is_realm_admin avatar_source timezone default_sending_stream
        default_events_register_stream default_all_public_streams
        (snd (create_user_profile dp realm email password active bot_type full_name short_name
           bot_owner is_mirror_dummy tos_version (Some timezone)
           (Some (TUTORIAL_WAITING dp)) False w)))"
proof -
  obtain w1 where w1: "create_user_profile dp realm email password active bot_type full_name
      short_name bot_owner is_mirror_dummy tos_version (Some timezone)
      (Some (TUTORIAL_WAITING dp)) False w = (next_ref w, w1)"
    by (simp add: create_user_profile_eq)
  show ?thesis
    unfolding create_user_def w1 by (simp add: finish_create_def assignments_def Let_def)
qed

lemma assignments_eq:
  "assignments up is_realm_admin avatar_source timezone default_sending_stream
     default_events_register_stream default_all_public_streams w1 =
   w1\<lparr>heap := (heap w1)(up :=
     (case default_all_public_streams of
        None \<Rightarrow> (heap w1 up)(''is_realm_admin'' \<mapsto> PBool is_realm_admin,
                   ''avatar_source'' \<mapsto> PStr avatar_source, ''timezone'' \<mapsto> PStr timezone,
                   ''default_sending_stream'' \<mapsto> of_opt_ref default_sending_stream,
                   ''default_events_register_stream'' \<mapsto>
                      of_opt_ref default_events_register_stream)
      | Some b \<Rightarrow> (heap w1 up)(''is_realm_admin'' \<mapsto> PBool is_realm_admin,
                   ''avatar_source'' \<mapsto> PStr avatar_source, ''timezone'' \<mapsto> PStr timezone,
                   ''default_sending_stream'' \<mapsto> of_opt_ref default_sending_stream,
                   ''default_events_register_stream'' \<mapsto>
                      of_opt_ref default_events_register_stream,
                   ''default_all_public_streams'' \<mapsto> PBool b)))\<rparr>"
  by (cases default_all_public_streams) (simp_all add: assignments_def setattr_def Let_def)

subsection \<open>The persistence steps\<close>

lemma save_heap:
  "heap (outcome_world (save dp r w)) =
     (heap w)(r := (case heap w r ''id'' of
                      Some (PInt k) \<Rightarrow> heap w r
                    | _ \<Rightarrow> if user_profile_ok dp (db w) (heap w r)
                           then (heap w r)(''id'' \<mapsto> PInt (user_profile_seq (db w)))
                           else heap w r))"
  by (auto simp: save_def Let_def fun_eq_iff split: option.splits pyval.splits)

lemma save_new:
  assumes "heap w r ''id'' = Some PNone" "save dp r w = Inr (u, w')"
  shows "w' = w\<lparr>heap := (heap w)(r := (heap w r)(''id'' \<mapsto> PInt (user_profile_seq (db w)))),
               db := (db w)\<lparr>user_profiles := user_profiles (db w) @
                         [(user_profile_seq (db w),
                           (heap w r)(''id'' \<mapsto> PInt (user_profile_seq (db w))))],
                       user_profile_seq := user_profile_seq (db w) + 1\<rparr>\<rparr>"
  using assms by (auto simp: save_def Let_def split: if_splits)

lemma Recipient_objects_create_Inr:
  assumes "Recipient_objects_create dp v ty w = Inr (rcp, w')"
  shows "\<exists>k. v = PInt k
     \<and> rcp = \<lparr>recipient_pk = recipient_seq (db w), type_id = k, type = ty\<rparr>
     \<and> w' = w\<lparr>db := (db w)\<lparr>recipients := recipients (db w) @ [rcp],
                             recipient_seq := recipient_seq (db w) + 1\<rparr>\<rparr>"
  using assms by (auto simp: Recipient_objects_create_def Let_def split: pyval.splits if_splits)

lemma Recipient_objects_create_Inl:
  assumes "Recipient_objects_create dp v ty w = Inl (e, w')"
  shows "e = DatabaseError ''Recipient'' \<and> w' = w"
  using assms by (auto simp: Recipient_objects_create_def Let_def split: pyval.splits if_splits)

lemma Subscription_objects_create_Inr:
  assumes "Subscription_objects_create dp r rcp w = Inr (sub, w')"
  shows "\<exists>k. heap w r ''id'' = Some (PInt k)
     \<and> sub = \<lparr>subscription_pk = subscription_seq (db w), user_profile_id = k,
              recipient_id = recipient_pk rcp\<rparr>
     \<and> w' = w\<lparr>db := (db w)\<lparr>subscriptions := subscriptions (db w) @ [sub],
                             subscription_seq := subscription_seq (db w) + 1\<rparr>\<rparr>"
  using assms
  by (auto simp: Subscription_objects_create_def Let_def
           split: option.splits pyval.splits if_splits)

lemma Subscription_objects_create_Inl:
  assumes "Subscription_objects_create dp r rcp w = Inl (e, w')"
  shows "e = DatabaseError ''Subscription'' \<and> w' = w"
  using assms
  by (auto simp: Subscription_objects_create_def Let_def
           split: option.splits pyval.splits if_splits)

lemma save_Inl:
  assumes "save dp r w = Inl (e, w')"
  shows "e = DatabaseError ''UserProfile'' \<and> w' = w"
  using assms by (auto simp: save_def Let_def split: option.splits pyval.splits if_splits)

lemma copy_settings_Inl:
  assumes "copy_settings names s t w = Inl (e, w')"
  shows "\<exists>n. e = AttributeError n"
  using assms by (induction names arbitrary: w) (auto split: option.splits)

lemma bind_Inr:
  assumes "(case m of Inl e \<Rightarrow> Inl e | Inr (x, w) \<Rightarrow> f x w) = Inr y"
  shows "\<exists>x w. m = Inr (x, w) \<and> f x w = Inr y"
  using assms by (cases m) auto

lemma bind_Inl:
  assumes "(case m of Inl e \<Rightarrow> Inl e | Inr (x, w) \<Rightarrow> f x w) = Inl y"
  shows "m = Inl y \<or> (\<exists>x w. m = Inr (x, w) \<and> f x w = Inl y)"
  using assms by (cases m) auto

text \<open>The stages a successful call went through.\<close>

lemma finish_create_InrE:
  assumes "finish_create dp up src w7 = Inr (r, w')"
  obtains w8 w9 pk rcp w10 sub where
    "(case src of None \<Rightarrow> Inr ((), w7) | Some s \<Rightarrow> copy_user_settings dp s up w7) = Inr ((), w8)"
    "save dp up w8 = Inr ((), w9)"
    "heap w9 up ''id'' = Some pk"
    "Recipient_objects_create dp pk PERSONAL w9 = Inr (rcp, w10)"
    "Subscription_objects_create dp up rcp w10 = Inr (sub, w')"
    "r = up"
proof -
  from bind_Inr[OF assms[unfolded finish_create_def]] obtain u w8 where
    ov: "(case src of None \<Rightarrow> Inr ((), w7) | Some s \<Rightarrow> copy_user_settings dp s up w7) = Inr (u, w8)"
    and r1: "(case save dp up w8 of Inl e \<Rightarrow> Inl e | Inr (u', w9) \<Rightarrow>
       (case heap w9 up ''id'' of None \<Rightarrow> Inl (AttributeError ''id'', w9) | Some pk \<Rightarrow>
       (case Recipient_objects_create dp pk PERSONAL w9 of Inl e \<Rightarrow> Inl e | Inr (rcp, w10) \<Rightarrow>
       (case Subscription_objects_create dp up rcp w10 of Inl e \<Rightarrow> Inl e
        | Inr (sub, w11) \<Rightarrow> Inr (up, w11))))) = Inr (r, w')"
    by blast
  from bind_Inr[OF r1] obtain u' w9 where
    sv: "save dp up w8 = Inr (u', w9)"
    and r2: "(case heap w9 up ''id'' of None \<Rightarrow> Inl (AttributeError ''id'', w9) | Some pk \<Rightarrow>
       (case Recipient_objects_create dp pk PERSONAL w9 of Inl e \<Rightarrow> Inl e | Inr (rcp, w10) \<Rightarrow>
       (case Subscription_objects_create dp up rcp w10 of Inl e \<Rightarrow> Inl e
        | Inr (sub, w11) \<Rightarrow> Inr (up, w11)))) = Inr (r, w')"
    by blast
  from r2 obtain pk where
    pk: "heap w9 up ''id'' = Some pk"
    and r3: "(case Recipient_objects_create dp pk PERSONAL w9 of Inl e \<Rightarrow> Inl e | Inr (rcp, w10) \<Rightarrow>
       (case Subscription_objects_create dp up rcp w10 of Inl e \<Rightarrow> Inl e
        | Inr (sub, w11) \<Rightarrow> Inr (up, w11))) = Inr (r, w')"
    by (cases "heap w9 up ''id''") simp_all
  from bind_Inr[OF r3] obtain rcp w10 where
    rc: "Recipient_objects_create dp pk PERSONAL w9 = Inr (rcp, w10)"
    and r4: "(case Subscription_objects_create dp up rcp w10 of Inl e \<Rightarrow> Inl e
        | Inr (sub, w11) \<Rightarrow> Inr (up, w11)) = Inr (r, w')"
    by blast
  from bind_Inr[OF r4] obtain sub w11 where
    sb: "Subscription_objects_create dp up rcp w10 = Inr (sub, w11)"
    and r5: "(Inr (up, w11) :: nat result) = Inr (r, w')"
    by blast
  from r5 have "r = up" "w11 = w'" by simp_all
  with ov sv pk rc sb show thesis by (intro that[of w8 w9 pk rcp w10 sub]) simp_all
qed

lemma overlay_Inr:
  assumes "(case src of None \<Rightarrow> Inr ((), w7) | Some s \<Rightarrow> copy_user_settings dp s up w7)
             = Inr ((), w8)"
  shows "w8 = w7\<lparr>heap := (heap w7)(up :=
           (case src of None \<Rightarrow> heap w7 up
            | Some s \<Rightarrow> copied (settings_names dp) (heap w7 s) (heap w7 up)))\<rparr>
         \<and> (\<forall>s. src = Some s \<longrightarrow> (\<forall>n \<in> set (settings_names dp). heap w7 s n \<noteq> None))"
proof (cases src)
  case None
  then show ?thesis using assms by simp
next
  case (Some s)
  with assms have c: "copy_settings (settings_names dp) s up w7 = Inr ((), w8)"
    by (simp add: copy_user_settings_eq)
  have all: "\<forall>n \<in> set (settings_names dp). heap w7 s n \<noteq> None"
    by (rule copy_settings_InrD[OF c])
  from copy_settings_ok[OF all, of up] c show ?thesis using Some all by simp
qed

lemma finish_create_InlE:
  assumes "finish_create dp up src w7 = Inl (e, w')"
  obtains
    (overlay) s where "src = Some s" "copy_user_settings dp s up w7 = Inl (e, w')"
  | (save) w8 where
      "(case src of None \<Rightarrow> Inr ((), w7) | Some s \<Rightarrow> copy_user_settings dp s up w7) = Inr ((), w8)"
      "save dp up w8 = Inl (e, w')"
  | (no_id) w8 where
      "(case src of None \<Rightarrow> Inr ((), w7) | Some s \<Rightarrow> copy_user_settings dp s up w7) = Inr ((), w8)"
      "save dp up w8 = Inr ((), w')" "heap w' up ''id'' = None" "e = AttributeError ''id''"
  | (recipient) w8 w9 pk where
      "(case src of None \<Rightarrow> Inr ((), w7) | Some s \<Rightarrow> copy_user_settings dp s up w7) = Inr ((), w8)"
      "save dp up w8 = Inr ((), w9)" "heap w9 up ''id'' = Some pk"
      "Recipient_objects_create dp pk PERSONAL w9 = Inl (e, w')"
  | (subscription) w8 w9 pk rcp w10 where
      "(case src of None \<Rightarrow> Inr ((), w7) | Some s \<Rightarrow> copy_user_settings dp s up w7) = Inr ((), w8)"
      "save dp up w8 = Inr ((), w9)" "heap w9 up ''id'' = Some pk"
      "Recipient_objects_create dp pk PERSONAL w9 = Inr (rcp, w10)"
      "Subscription_objects_create dp up rcp w10 = Inl (e, w')"
proof -
  let ?ov = "(case src of None \<Rightarrow> Inr ((), w7) | Some s \<Rightarrow> copy_user_settings dp s up w7)"
  from bind_Inl[OF assms[unfolded finish_create_def]]
  consider (a) "?ov = Inl (e, w')"
    | (b) u w8 where "?ov = Inr (u, w8)"
      "(case save dp up w8 of Inl e \<Rightarrow> Inl e | Inr (u', w9) \<Rightarrow>
       (case heap w9 up ''id'' of None \<Rightarrow> Inl (AttributeError ''id'', w9) | Some pk \<Rightarrow>
       (case Recipient_objects_create dp pk PERSONAL w9 of Inl e \<Rightarrow> Inl e | Inr (rcp, w10) \<Rightarrow>
       (case Subscription_objects_create dp up rcp w10 of Inl e \<Rightarrow> Inl e
        | Inr (sub, w11) \<Rightarrow> Inr (up, w11))))) = Inl (e, w')"
    by blast
  then show thesis
  proof cases
    case a
    then show ?thesis by (cases src) (auto intro: overlay)
  next
    case (b u w8)
    note ov = b(1)
    from bind_Inl[OF b(2)]
    consider (c) "save dp up w8 = Inl (e, w')"
      | (d) u' w9 where "save dp up w8 = Inr (u', w9)"
        "(case heap w9 up ''id'' of None \<Rightarrow> Inl (AttributeError ''id'', w9) | Some pk \<Rightarrow>
         (case Recipient_objects_create dp pk PERSONAL w9 of Inl e \<Rightarrow> Inl e | Inr (rcp, w10) \<Rightarrow>
         (case Subscription_objects_create dp up rcp w10 of Inl e \<Rightarrow> Inl e
          | Inr (sub, w11) \<Rightarrow> Inr (up, w11)))) = Inl (e, w')"
      by blast
    then show ?thesis
    proof cases
      case c
      with ov show ?thesis by (intro save[of w8]) simp_all
    next
      case (d u' w9)
      note sv = d(1)
      show ?thesis
      proof (cases "heap w9 up ''id''")
        case None
        with d(2) have "e = AttributeError ''id''" "w9 = w'" by simp_all
        with ov sv None show ?thesis by (intro no_id[of w8]) simp_all
      next
        case (Some pk)
        with d(2) have r3:
          "(case Recipient_objects_create dp pk PERSONAL w9 of Inl e \<Rightarrow> Inl e | Inr (rcp, w10) \<Rightarrow>
           (case Subscription_objects_create dp up rcp w10 of Inl e \<Rightarrow> Inl e
            | Inr (sub, w11) \<Rightarrow> Inr (up, w11))) = Inl (e, w')"
          by simp
        from bind_Inl[OF r3]
        consider (f) "Recipient_objects_create dp pk PERSONAL w9 = Inl (e, w')"
          | (g) rcp w10 where "Recipient_objects_create dp pk PERSONAL w9 = Inr (rcp, w10)"
            "(case Subscription_objects_create dp up rcp w10 of Inl e \<Rightarrow> Inl e
              | Inr (sub, w11) \<Rightarrow> Inr (up, w11)) = Inl (e, w')"
          by blast
        then show ?thesis
        proof cases
          case f
          with ov sv Some show ?thesis by (intro recipient[of w8 w9 pk]) simp_all
        next
          case (g rcp w10)
          from bind_Inl[OF g(2)] have "Subscription_objects_create dp up rcp w10 = Inl (e, w')"
            by auto
          with ov sv Some g(1) show ?thesis by (intro subscription[of w8 w9 pk rcp w10]) simp_all
        qed
      qed
    qed
  qed
qed

text \<open>The world a successful call on a new, keyless object leaves behind.\<close>

lemma finish_create_Inr_new:
  assumes fin: "finish_create dp up src w7 = Inr (r, w')"
    and new: "heap w7 up ''id'' = Some PNone"
    and nid: "''id'' \<notin> set (settings_names dp) \<or> src = None"
  defines "obj8 \<equiv> (case src of None \<Rightarrow> heap w7 up
            | Some s \<Rightarrow> copied (settings_names dp) (heap w7 s) (heap w7 up))"
  defines "obj9 \<equiv> obj8(''id'' \<mapsto> PInt (user_profile_seq (db w7)))"
  shows "r = up"
    and "w' = w7\<lparr>heap := (heap w7)(up := obj9),
            db := (db w7)\<lparr>
              user_profiles := user_profiles (db w7) @ [(user_profile_seq (db w7), obj9)],
              user_profile_seq := user_profile_seq (db w7) + 1,
              recipients := recipients (db w7) @
                [\<lparr>recipient_pk = recipient_seq (db w7), type_id = user_profile_seq (db w7),
                  type = PERSONAL\<rparr>],
              recipient_seq := recipient_seq (db w7) + 1,
              subscriptions := subscriptions (db w7) @
                [\<lparr>subscription_pk = subscription_seq (db w7),
                  user_profile_id = user_profile_seq (db w7),
                  recipient_id = recipient_seq (db w7)\<rparr>],
              subscription_seq := subscription_seq (db w7) + 1\<rparr>\<rparr>"
proof -
  from fin obtain w8 w9 pk rcp w10 sub where
    ov: "(case src of None \<Rightarrow> Inr ((), w7) | Some s \<Rightarrow> copy_user_settings dp s up w7) = Inr ((), w8)"
    and sv: "save dp up w8 = Inr ((), w9)"
    and pk: "heap w9 up ''id'' = Some pk"
    and rc: "Recipient_objects_create dp pk PERSONAL w9 = Inr (rcp, w10)"
    and sb: "Subscription_objects_create dp up rcp w10 = Inr (sub, w')"
    and r: "r = up"
    by (rule finish_create_InrE)
  show "r = up" by (rule r)
  have w8: "w8 = w7\<lparr>heap := (heap w7)(up := obj8)\<rparr>"
    using overlay_Inr[OF ov] by (simp add: obj8_def)
  have id8: "heap w8 up ''id'' = Some PNone"
    using new nid by (auto simp: w8 obj8_def copied_def split: option.splits)
  note w9 = save_new[OF id8 sv]
  have pk': "pk = PInt (user_profile_seq (db w7))" using pk by (simp add: w9 w8)
  from Recipient_objects_create_Inr[OF rc] have
    rcp: "rcp = \<lparr>recipient_pk = recipient_seq (db w9), type_id = user_profile_seq (db w7),
                 type = PERSONAL\<rparr>"
    and w10: "w10 = w9\<lparr>db := (db w9)\<lparr>recipients := recipients (db w9) @ [rcp],
                             recipient_seq := recipient_seq (db w9) + 1\<rparr>\<rparr>"
    by (auto simp: pk')
  from Subscription_objects_create_Inr[OF sb] obtain k where
    k: "heap w10 up ''id'' = Some (PInt k)"
    and sub: "sub = \<lparr>subscription_pk = subscription_seq (db w10), user_profile_id = k,
              recipient_id = recipient_pk rcp\<rparr>"
    and w': "w' = w10\<lparr>db := (db w10)\<lparr>subscriptions := subscriptions (db w10) @ [sub],
                             subscription_seq := subscription_seq (db w10) + 1\<rparr>\<rparr>"
    by blast
  have k': "k = user_profile_seq (db w7)" using k by (simp add: w10 w9 w8)
  show "w' = w7\<lparr>heap := (heap w7)(up := obj9),
            db := (db w7)\<lparr>
              user_profiles := user_profiles (db w7) @ [(user_profile_seq (db w7), obj9)],
              user_profile_seq := user_profile_seq (db w7) + 1,
              recipients := recipients (db w7) @
                [\<lparr>recipient_pk = recipient_seq (db w7), type_id = user_profile_seq (db w7),
                  type = PERSONAL\<rparr>],
              recipient_seq := recipient_seq (db w7) + 1,
              subscriptions := subscriptions (db w7) @
                [\<lparr>subscription_pk = subscription_seq (db w7),
                  user_profile_id = user_profile_seq (db w7),
                  recipient_id = recipient_seq (db w7)\<rparr>],
              subscription_seq := subscription_seq (db w7) + 1\<rparr>\<rparr>"
    unfolding w' sub k' by (simp add: w10 rcp w9 w8 obj9_def)
qed

lemma finish_create_keeps_attr:
  assumes "finish_create dp up src w7 = Inr (r, w')"
    and "n \<notin> set (settings_names dp)" "n \<noteq> ''id''"
  shows "heap w' up n = heap w7 up n"
proof -
  from assms(1) obtain w8 w9 pk rcp w10 sub where
    ov: "(case src of None \<Rightarrow> Inr ((), w7) | Some s \<Rightarrow> copy_user_settings dp s up w7) = Inr ((), w8)"
    and sv: "save dp up w8 = Inr ((), w9)"
    and rc: "Recipient_objects_create dp pk PERSONAL w9 = Inr (rcp, w10)"
    and sb: "Subscription_objects_create dp up rcp w10 = Inr (sub, w')"
    by (rule finish_create_InrE)
  have "heap w' = heap w10" using Subscription_objects_create_Inr[OF sb] by auto
  also have "\<dots> = heap w9" using Recipient_objects_create_Inr[OF rc] by auto
  finally have "heap w' up n = heap w9 up n" by simp
  also have "\<dots> = heap w8 up n"
    using save_heap[of dp up w8] sv assms(3) by (auto split: option.splits pyval.splits if_splits)
  also have "\<dots> = heap w7 up n"
    using overlay_Inr[OF ov] assms(2) by (auto simp: copied_def split: option.splits)
  finally show ?thesis .
qed

subsection \<open>The object create\_user prepares\<close>

lemma prepared_heap:
  "heap (assignments (next_ref w) is_realm_admin avatar_source timezone default_sending_stream
        default_events_register_stream default_all_public_streams
        (snd (create_user_profile dp realm email password active bot_type full_name short_name
           bot_owner is_mirror_dummy tos_version tz tutorial_status enter_sends w))) (next_ref w) =
   (case default_all_public_streams of
      None \<Rightarrow> (returned_profile (create_user_profile dp realm email password active bot_type
                   full_name short_name bot_owner is_mirror_dummy tos_version tz tutorial_status
                   enter_sends w))
                 (''is_realm_admin'' \<mapsto> PBool is_realm_admin,
                   ''avatar_source'' \<mapsto> PStr avatar_source, ''timezone'' \<mapsto> PStr timezone,
                   ''default_sending_stream'' \<mapsto> of_opt_ref default_sending_stream,
                   ''default_events_register_stream'' \<mapsto>
                      of_opt_ref default_events_register_stream)
    | Some b \<Rightarrow> (returned_profile (create_user_profile dp realm email password active bot_type
                   full_name short_name bot_owner is_mirror_dummy tos_version tz tutorial_status
                   enter_sends w))
                 (''is_realm_admin'' \<mapsto> PBool is_realm_admin,
                   ''avatar_source'' \<mapsto> PStr avatar_source, ''timezone'' \<mapsto> PStr timezone,
                   ''default_sending_stream'' \<mapsto> of_opt_ref default_sending_stream,
                   ''default_events_register_stream'' \<mapsto>
                      of_opt_ref default_events_register_stream,
                   ''default_all_public_streams'' \<mapsto> PBool b))"
proof -
  have "fst (create_user_profile dp realm email password active bot_type full_name short_name
           bot_owner is_mirror_dummy tos_version tz tutorial_status enter_sends w) = next_ref w"
    by (simp add: create_user_profile_eq)
  then show ?thesis
    unfolding assignments_eq returned_profile_def by (simp split: option.splits)
qed

lemma prepared_other:
  "r \<noteq> next_ref w \<Longrightarrow>
   heap (assignments (next_ref w) is_realm_admin avatar_source timezone default_sending_stream
        default_events_register_stream default_all_public_streams
        (snd (create_user_profile dp realm email password active bot_type full_name short_name
           bot_owner is_mirror_dummy tos_version tz tutorial_status enter_sends w))) r = heap w r"
  unfolding assignments_eq create_user_profile_eq by simp

lemma prepared_db:
  "db (assignments (next_ref w) is_realm_admin avatar_source timezone default_sending_stream
        default_events_register_stream default_all_public_streams
        (snd (create_user_profile dp realm email password active bot_type full_name short_name
           bot_owner is_mirror_dummy tos_version tz tutorial_status enter_sends w))) = db w"
  unfolding assignments_eq create_user_profile_eq by simp

lemma prepared_attr:
  "heap (assignments (next_ref w) is_realm_admin avatar_source timezone default_sending_stream
        default_events_register_stream default_all_public_streams
        (snd (create_user_profile dp realm email password active bot_type full_name short_name
           bot_owner is_mirror_dummy tos_version tz tutorial_status enter_sends w))) (next_ref w)
     ''password'' = Some (PHashed (if truthy bot_type \<or> \<not> active then None else password))"
  "heap (assignments (next_ref w) is_realm_admin avatar_source timezone default_sending_stream
        default_events_register_stream default_all_public_streams
        (snd (create_user_profile dp realm email password active bot_type full_name short_name
           bot_owner is_mirror_dummy tos_version tz tutorial_status enter_sends w))) (next_ref w)
     ''id'' = Some PNone"
  "heap (assignments (next_ref w) is_realm_admin avatar_source timezone default_sending_stream
        default_events_register_stream default_all_public_streams
        (snd (create_user_profile dp realm email password active bot_type full_name short_name
           bot_owner is_mirror_dummy tos_version tz tutorial_status enter_sends w))) (next_ref w)
     ''email'' = Some (PStr (normalize_email dp email))"
  "heap (assignments (next_ref w) is_realm_admin avatar_source timezone default_sending_stream
        default_events_register_stream default_all_public_streams
        (snd (create_user_profile dp realm email password active bot_type full_name short_name
           bot_owner is_mirror_dummy tos_version tz tutorial_status enter_sends w))) (next_ref w)
     ''short_name'' = Some (PStr short_name)"
  "heap (assignments (next_ref w) is_realm_admin avatar_source timezone default_sending_stream
        default_events_register_stream default_all_public_streams
        (snd (create_user_profile dp realm email password active bot_type full_name short_name
           bot_owner is_mirror_dummy tos_version tz tutorial_status enter_sends w))) (next_ref w)
     ''default_all_public_streams'' =
       (case default_all_public_streams of
          None \<Rightarrow> field_defaults dp ''default_all_public_streams''
        | Some b \<Rightarrow> Some (PBool b))"
  unfolding prepared_heap returned_profile_create_user_profile
  by (simp_all split: option.splits)

subsection \<open>Calls on the concrete installation, and the world a call leaves\<close>

lemmas ex_eval = create_user_eq finish_create_def copy_user_settings_eq settings_names_def
  assignments_eq create_user_profile_eq save_def Recipient_objects_create_def
  Subscription_objects_create_def setattr_def Let_def
  ex_deps_def ex_world_def ex_world_orphan_def ex_db_def ex_source_def ex_realm_def

lemma ex_overlay_call:
  "\<exists>w'. create_user ex_deps ''alice@example.com'' (Some ''pw'') ex_realm ''Alice'' ''alice''
      True False None None None ''Europe/Paris'' ''G'' False None None None (Some 0) ex_world
      = Inr (2, w')"
  by (simp add: ex_eval)

lemma ex_plain_call:
  "\<exists>w'. create_user ex_deps ''alice@example.com'' (Some ''pw'') ex_realm ''Alice'' ''alice''
      True False None None None ''Europe/Paris'' ''G'' False None None None None ex_world
      = Inr (2, w')"
  by (simp add: ex_eval)

lemma ex_bot_call:
  "\<exists>w'. create_user ex_deps ''bot@example.com'' (Some ''pw'') ex_realm ''Bot'' ''bot''
      True False (Some 1) (Some 0) None ''UTC'' ''G'' False None None None None ex_world
      = Inr (2, w')"
  by (simp add: ex_eval)

lemma ex_orphan_call:
  "\<exists>w'. create_user ex_deps ''alice@example.com'' (Some ''pw'') ex_realm ''Alice'' ''alice''
      True False None None None ''Europe/Paris'' ''G'' False None None None None ex_world_orphan
      = Inl (DatabaseError ''Recipient'', w')"
  by (simp add: ex_eval)

lemma ex_names:
  "set (property_types ex_deps) \<union> set (notification_setting_types ex_deps)
     = {''timezone'', ''enable_sounds''}"
  by (auto simp: ex_deps_def)

lemma id_not_setting:
  "''id'' \<notin> set (property_types dp) \<union> set (notification_setting_types dp)
     \<Longrightarrow> ''id'' \<notin> set (settings_names dp)"
  by (simp add: settings_names_def)

text \<open>The world a successful \<open>create_user\<close> leaves behind.\<close>

lemma create_user_Inr:
  assumes cu: "create_user dp email password realm full_name short_name active is_realm_admin
       bot_type bot_owner tos_version timezone avatar_source is_mirror_dummy
       default_sending_stream default_events_register_stream default_all_public_streams
       source_profile w = Inr (r, w')"
    and nid: "''id'' \<notin> set (settings_names dp) \<or> source_profile = None"
  shows "r = next_ref w"
    and "\<exists>obj. heap w' r = obj(''id'' \<mapsto> PInt (user_profile_seq (db w)))
       \<and> (source_profile = None \<longrightarrow> obj = heap (assignments (next_ref w) is_realm_admin
             avatar_source timezone default_sending_stream default_events_register_stream
             default_all_public_streams
             (snd (create_user_profile dp realm email password active bot_type full_name
                short_name bot_owner is_mirror_dummy tos_version (Some timezone)
                (Some (TUTORIAL_WAITING dp)) False w))) (next_ref w))
       \<and> (\<forall>s. source_profile = Some s \<longrightarrow> obj = copied (settings_names dp)
             (heap (assignments (next_ref w) is_realm_admin
               avatar_source timezone default_sending_stream default_events_register_stream
               default_all_public_streams
               (snd (create_user_profile dp realm email password active bot_type full_name
                  short_name bot_owner is_mirror_dummy tos_version (Some timezone)
                  (Some (TUTORIAL_WAITING dp)) False w))) s)
             (heap (assignments (next_ref w) is_realm_admin
               avatar_source timezone default_sending_stream default_events_register_stream
               default_all_public_streams
               (snd (create_user_profile dp realm email password active bot_type full_name
                  short_name bot_owner is_mirror_dummy tos_version (Some timezone)
                  (Some (TUTORIAL_WAITING dp)) False w))) (next_ref w)))"
    and "db w' = (db w)\<lparr>
              user_profiles := user_profiles (db w) @ [(user_profile_seq (db w), heap w' r)],
              user_profile_seq := user_profile_seq (db w) + 1,
              recipients := recipients (db w) @
                [\<lparr>recipient_pk = recipient_seq (db w), type_id = user_profile_seq (db w),
                  type = PERSONAL\<rparr>],
              recipient_seq := recipient_seq (db w) + 1,
              subscriptions := subscriptions (db w) @
                [\<lparr>subscription_pk = subscription_seq (db w),
                  user_profile_id = user_profile_seq (db w),
                  recipient_id = recipient_seq (db w)\<rparr>],
              subscription_seq := subscription_seq (db w) + 1\<rparr>"
proof -
  let ?w7 = "assignments (next_ref w) is_realm_admin
             avatar_source timezone default_sending_stream default_events_register_stream
             default_all_public_streams
             (snd (create_user_profile dp realm email password active bot_type full_name
                short_name bot_owner is_mirror_dummy tos_version (Some timezone)
                (Some (TUTORIAL_WAITING dp)) False w))"
  note fin = cu[unfolded create_user_eq]
  have new: "heap ?w7 (next_ref w) ''id'' = Some PNone" by (rule prepared_attr)
  show r: "r = next_ref w" by (rule finish_create_Inr_new(1)[OF fin new nid])
  note w' = finish_create_Inr_new(2)[OF fin new nid]
  have h: "heap w' r = (case source_profile of None \<Rightarrow> heap ?w7 (next_ref w)
            | Some s \<Rightarrow> copied (settings_names dp) (heap ?w7 s) (heap ?w7 (next_ref w)))
            (''id'' \<mapsto> PInt (user_profile_seq (db w)))"
    unfolding r by (subst w') (simp add: prepared_db)
  show "\<exists>obj. heap w' r = obj(''id'' \<mapsto> PInt (user_profile_seq (db w)))
       \<and> (source_profile = None \<longrightarrow> obj = heap ?w7 (next_ref w))
       \<and> (\<forall>s. source_profile = Some s \<longrightarrow> obj = copied (settings_names dp)
             (heap ?w7 s) (heap ?w7 (next_ref w)))"
    unfolding h by (cases source_profile) auto
  show "db w' = (db w)\<lparr>
              user_profiles := user_profiles (db w) @ [(user_profile_seq (db w), heap w' r)],
              user_profile_seq := user_profile_seq (db w) + 1,
              recipients := recipients (db w) @
                [\<lparr>recipient_pk = recipient_seq (db w), type_id = user_profile_seq (db w),
                  type = PERSONAL\<rparr>],
              recipient_seq := recipient_seq (db w) + 1,
              subscriptions := subscriptions (db w) @
                [\<lparr>subscription_pk = subscription_seq (db w),
                  user_profile_id = user_profile_seq (db w),
                  recipient_id = recipient_seq (db w)\<rparr>],
              subscription_seq := subscription_seq (db w) + 1\<rparr>"
    unfolding h by (subst w') (simp add: prepared_db)
qed

lemma refs_issued_keys_empty:
  "refs_issued_keys \<lparr>user_profiles = [], recipients = [], subscriptions = [],
     user_profile_seq = 1, recipient_seq = 1, subscription_seq = 1\<rparr>"
  by (simp add: refs_issued_keys_def)

lemma create_user_keeps_issued_keys:
  assumes cu: "create_user dp email password realm full_name short_name active is_realm_admin
       bot_type bot_owner tos_version timezone avatar_source is_mirror_dummy
       default_sending_stream default_events_register_stream default_all_public_streams
       source_profile w = Inr (r, w')"
    and nid: "''id'' \<notin> set (settings_names dp) \<or> source_profile = None"
    and wf: "refs_issued_keys (db w)"
  shows "refs_issued_keys (db w')"
proof -
  have "list_all (\<lambda>rc. type rc = PERSONAL \<longrightarrow> type_id rc < user_profile_seq (db w) + 1)
          (recipients (db w))"
    using wf by (auto simp: refs_issued_keys_def list_all_iff)
  moreover have "list_all (\<lambda>s. user_profile_id s < user_profile_seq (db w) + 1)
          (subscriptions (db w))"
    using wf by (auto simp: refs_issued_keys_def list_all_iff)
  ultimately show ?thesis
    unfolding create_user_Inr(3)[OF cu nid] by (simp add: refs_issued_keys_def)
qed

section \<open>The claims\<close>

text \<open>
  C4. For every pair of profiles, when the source has the attributes the copier reads
  (as every UserProfile has), \<open>copy_user_settings\<close> returns normally, and afterwards the
  target's full name, every field named in \<open>property_types\<close> and every field named in
  \<open>notification_setting_types\<close> equal the source's: both the source's value before the
  call and its value after it.
\<close>

theorem copy_user_settings_copies:
  assumes "\<forall>n \<in> set (property_types dp) \<union> set (notification_setting_types dp) \<union> {''full_name''}.
             heap w source_profile n \<noteq> None"
  shows "\<exists>w'. copy_user_settings dp source_profile target_profile w = Inr ((), w')
     \<and> (\<forall>n \<in> set (property_types dp) \<union> set (notification_setting_types dp) \<union> {''full_name''}.
           heap w' target_profile n = heap w source_profile n
           \<and> heap w' target_profile n = heap w' source_profile n)"
proof -
  have all: "\<forall>n \<in> set (settings_names dp). heap w source_profile n \<noteq> None"
    using assms by (simp add: settings_names_def)
  have names: "set (settings_names dp) =
      set (property_types dp) \<union> set (notification_setting_types dp) \<union> {''full_name''}"
    by (auto simp: settings_names_def)
  let ?w' = "w\<lparr>heap := (heap w)(target_profile :=
               copied (settings_names dp) (heap w source_profile) (heap w target_profile))\<rparr>"
  have "copy_user_settings dp source_profile target_profile w = Inr ((), ?w')"
    unfolding copy_user_settings_eq by (rule copy_settings_ok[OF all])
  moreover have "\<forall>n \<in> set (settings_names dp).
      heap ?w' target_profile n = heap w source_profile n
      \<and> heap ?w' target_profile n = heap ?w' source_profile n"
    by (simp add: copied_def)
  ultimately show ?thesis unfolding names by blast
qed

theorem copy_user_settings_copies_witness:
  "heap ex_world 0 ''timezone'' \<noteq> None \<and> heap ex_world 0 ''enable_sounds'' \<noteq> None
   \<and> heap ex_world 0 ''full_name'' \<noteq> None
   \<and> (\<exists>w'. copy_user_settings ex_deps 0 1 ex_world = Inr ((), w')
         \<and> heap w' 1 ''timezone'' = Some (PStr ''UTC'')
         \<and> heap w' 1 ''enable_sounds'' = Some (PBool False)
         \<and> heap w' 1 ''full_name'' = Some (PStr ''Bob''))"
proof -
  have src: "heap ex_world 0 ''timezone'' = Some (PStr ''UTC'')"
    "heap ex_world 0 ''enable_sounds'' = Some (PBool False)"
    "heap ex_world 0 ''full_name'' = Some (PStr ''Bob'')"
    by (simp_all add: ex_world_def ex_source_def)
  have names: "set (property_types ex_deps) \<union> set (notification_setting_types ex_deps)
      \<union> {''full_name''} = {''timezone'', ''enable_sounds'', ''full_name''}"
    by (auto simp: ex_deps_def)
  have h: "\<forall>n \<in> set (property_types ex_deps) \<union> set (notification_setting_types ex_deps)
      \<union> {''full_name''}. heap ex_world 0 n \<noteq> None"
    unfolding names using src by simp
  from copy_user_settings_copies[OF h, of 1] obtain w' where
    "copy_user_settings ex_deps 0 1 ex_world = Inr ((), w')"
    "\<forall>n \<in> {''timezone'', ''enable_sounds'', ''full_name''}. heap w' 1 n = heap ex_world 0 n"
    unfolding names by blast
  then show ?thesis using src by auto
qed

text \<open>
  C5. \<open>copy_user_settings\<close> returns nothing (its result type is \<open>unit\<close>). Whatever its
  outcome, the world it leaves differs from the one it found only in the attributes of
  the target object: the database is the same (nothing is saved), the source object is
  the same, and of the target's attributes those outside full\_name, \<open>property_types\<close>
  and \<open>notification_setting_types\<close> are the same.
\<close>

theorem copy_user_settings_frame:
  "outcome_world (copy_user_settings dp source_profile target_profile w) =
     w\<lparr>heap := (heap w)(target_profile :=
          heap (outcome_world (copy_user_settings dp source_profile target_profile w))
            target_profile)\<rparr>
   \<and> db (outcome_world (copy_user_settings dp source_profile target_profile w)) = db w
   \<and> heap (outcome_world (copy_user_settings dp source_profile target_profile w)) source_profile
       = heap w source_profile
   \<and> heap (outcome_world (copy_user_settings dp source_profile target_profile w)) target_profile
       |` (- (set (property_types dp) \<union> set (notification_setting_types dp) \<union> {''full_name''}))
     = heap w target_profile
       |` (- (set (property_types dp) \<union> set (notification_setting_types dp) \<union> {''full_name''}))"
proof -
  let ?w' = "outcome_world (copy_user_settings dp source_profile target_profile w)"
  have names: "set (settings_names dp) =
      set (property_types dp) \<union> set (notification_setting_types dp) \<union> {''full_name''}"
    by (auto simp: settings_names_def)
  note fr = copy_settings_frame[of "settings_names dp" source_profile target_profile w,
      folded copy_user_settings_eq]
  have a: "?w' = w\<lparr>heap := (heap w)(target_profile := heap ?w' target_profile)\<rparr>"
    using fr by blast
  have "db ?w' = db (w\<lparr>heap := (heap w)(target_profile := heap ?w' target_profile)\<rparr>)"
    using a by simp
  then have b: "db ?w' = db w" by simp
  show ?thesis using a b fr unfolding names by blast
qed

text \<open>
  C2. When \<open>bot_type\<close> is truthy or \<open>active\<close> is false, the profile that
  \<open>create_user_profile\<close> returns carries the hash of \<open>None\<close>, whatever password was
  supplied, and so has no usable password. The same holds for the profile \<open>create_user\<close>
  returns, password not being one of the settings an overlay copies.
\<close>

theorem no_usable_password_for_bot_or_inactive:
  assumes "truthy bot_type \<or> \<not> active"
  shows "returned_profile (create_user_profile dp realm email password active bot_type
           full_name short_name bot_owner is_mirror_dummy tos_version timezone tutorial_status
           enter_sends w) ''password'' = Some (PHashed None)
     \<and> \<not> has_usable_password (returned_profile (create_user_profile dp realm email password
           active bot_type full_name short_name bot_owner is_mirror_dummy tos_version timezone
           tutorial_status enter_sends w))
     \<and> (''password'' \<notin> set (property_types dp) \<union> set (notification_setting_types dp) \<longrightarrow>
         (\<forall>r w'. create_user dp email password realm full_name short_name active is_realm_admin
              bot_type bot_owner tos_version tz avatar_source is_mirror_dummy
              default_sending_stream default_events_register_stream default_all_public_streams
              source_profile w = Inr (r, w') \<longrightarrow>
            heap w' r ''password'' = Some (PHashed None) \<and> \<not> has_usable_password (heap w' r)))"
proof (intro conjI impI allI)
  show p: "returned_profile (create_user_profile dp realm email password active bot_type
           full_name short_name bot_owner is_mirror_dummy tos_version timezone tutorial_status
           enter_sends w) ''password'' = Some (PHashed None)"
    unfolding returned_profile_create_user_profile using assms by simp
  then show "\<not> has_usable_password (returned_profile (create_user_profile dp realm email
           password active bot_type full_name short_name bot_owner is_mirror_dummy tos_version
           timezone tutorial_status enter_sends w))"
    by (simp add: has_usable_password_def)
next
  fix r w'
  assume np: "''password'' \<notin> set (property_types dp) \<union> set (notification_setting_types dp)"
    and cu: "create_user dp email password realm full_name short_name active is_realm_admin
              bot_type bot_owner tos_version tz avatar_source is_mirror_dummy
              default_sending_stream default_events_register_stream default_all_public_streams
              source_profile w = Inr (r, w')"
  from np have np': "''password'' \<notin> set (settings_names dp)" by (simp add: settings_names_def)
  note fin = cu[unfolded create_user_eq]
  from fin have r: "r = next_ref w" by (rule finish_create_InrE)
  have "heap w' r ''password'' = Some (PHashed None)"
    unfolding r using finish_create_keeps_attr[OF fin np'] assms by (simp add: prepared_attr)
  then show "heap w' r ''password'' = Some (PHashed None)"
    "\<not> has_usable_password (heap w' r)"
    by (simp_all add: has_usable_password_def)
qed

theorem no_usable_password_for_bot_or_inactive_witness:
  "truthy (Some 1)
   \<and> returned_profile (create_user_profile ex_deps ex_realm ''bot@example.com'' (Some ''pw'')
        True (Some 1) ''Bot'' ''bot'' (Some 0) False None (Some ''UTC'') (Some ''W'') False
        ex_world) ''password'' = Some (PHashed None)
   \<and> ''password'' \<notin> set (property_types ex_deps) \<union> set (notification_setting_types ex_deps)
   \<and> (\<exists>r w'. create_user ex_deps ''bot@example.com'' (Some ''pw'') ex_realm ''Bot'' ''bot''
          True False (Some 1) (Some 0) None ''UTC'' ''G'' False None None None None ex_world
          = Inr (r, w')
        \<and> heap w' r ''password'' = Some (PHashed None))"
proof -
  have t: "truthy (Some 1) \<or> \<not> True" by (simp add: truthy_def)
  have np: "''password'' \<notin> set (property_types ex_deps) \<union> set (notification_setting_types ex_deps)"
    unfolding ex_names by simp
  from ex_bot_call obtain w' where cu:
    "create_user ex_deps ''bot@example.com'' (Some ''pw'') ex_realm ''Bot'' ''bot''
          True False (Some 1) (Some 0) None ''UTC'' ''G'' False None None None None ex_world
          = Inr (2, w')"
    by blast
  note inst = no_usable_password_for_bot_or_inactive[OF t, of ex_deps ex_realm
      "''bot@example.com''" "Some ''pw''" "''Bot''" "''bot''" "Some 0" False None]
  from inst[of "Some ''UTC''" "Some ''W''" False ex_world]
  have a: "returned_profile (create_user_profile ex_deps ex_realm ''bot@example.com'' (Some ''pw'')
        True (Some 1) ''Bot'' ''bot'' (Some 0) False None (Some ''UTC'') (Some ''W'') False
        ex_world) ''password'' = Some (PHashed None)"
    by blast
  from inst[of "Some ''UTC''" "Some ''W''" False ex_world False "''UTC''" "''G''" None None None None]
    np cu
  have b: "heap w' 2 ''password'' = Some (PHashed None)" by blast
  show ?thesis using t a np cu b by (simp add: truthy_def)
qed

text \<open>
  C8. The profile \<open>create_user_profile\<close> returns has the normalized email, a
  \<open>last_login\<close> and a \<open>date_joined\<close> that are both the clock's reading at the start
  of the call, and the onboarding steps \<open>[]\<close>. It is unsaved: it has no primary key,
  and the database is the one the call found.
\<close>

theorem create_user_profile_unsaved_fields:
  "returned_profile (create_user_profile dp realm email password active bot_type
      full_name short_name bot_owner is_mirror_dummy tos_version timezone tutorial_status
      enter_sends w) ''email'' = Some (PStr (normalize_email dp email))
   \<and> returned_profile (create_user_profile dp realm email password active bot_type
      full_name short_name bot_owner is_mirror_dummy tos_version timezone tutorial_status
      enter_sends w) ''last_login'' = Some (PDatetime (timezone_now w))
   \<and> returned_profile (create_user_profile dp realm email password active bot_type
      full_name short_name bot_owner is_mirror_dummy tos_version timezone tutorial_status
      enter_sends w) ''date_joined'' = Some (PDatetime (timezone_now w))
   \<and> returned_profile (create_user_profile dp realm email password active bot_type
      full_name short_name bot_owner is_mirror_dummy tos_version timezone tutorial_status
      enter_sends w) ''onboarding_steps'' = Some (PStr ''[]'')
   \<and> returned_profile (create_user_profile dp realm email password active bot_type
      full_name short_name bot_owner is_mirror_dummy tos_version timezone tutorial_status
      enter_sends w) ''id'' = Some PNone
   \<and> db (snd (create_user_profile dp realm email password active bot_type
      full_name short_name bot_owner is_mirror_dummy tos_version timezone tutorial_status
      enter_sends w)) = db w"
  unfolding returned_profile_create_user_profile
  by (simp add: timezone_now_def ujson_dumps_list_def create_user_profile_eq)

text \<open>
  C9. The returned profile's \<open>is_bot\<close> is the truth value of \<open>bot_type\<close>, which is
  true exactly for a non-zero integer. With \<open>bot_type = 0\<close> and an active account,
  \<open>is_bot\<close> is false and the hash stored is that of the password supplied.
\<close>

theorem is_bot_iff_bot_type_truthy:
  "returned_profile (create_user_profile dp realm email password active bot_type
      full_name short_name bot_owner is_mirror_dummy tos_version timezone tutorial_status
      enter_sends w) ''is_bot'' = Some (PBool (truthy bot_type))
   \<and> (truthy bot_type \<longleftrightarrow> (\<exists>i. bot_type = Some i \<and> i \<noteq> 0))
   \<and> returned_profile (create_user_profile dp realm email password True (Some 0)
      full_name short_name bot_owner is_mirror_dummy tos_version timezone tutorial_status
      enter_sends w) ''is_bot'' = Some (PBool False)
   \<and> returned_profile (create_user_profile dp realm email password True (Some 0)
      full_name short_name bot_owner is_mirror_dummy tos_version timezone tutorial_status
      enter_sends w) ''password'' = Some (PHashed password)"
  unfolding returned_profile_create_user_profile
  by (auto simp: truthy_def split: option.splits)

text \<open>
  C1. After a call to \<open>create_user\<close> that returns normally, on a database whose rows
  refer only to issued profile keys, the returned profile has a key, its row is in the
  database, exactly one Recipient of type personal has that key as its \<open>type_id\<close>, and
  exactly one Subscription links that key to that Recipient.
\<close>

theorem create_user_one_recipient_one_subscription:
  assumes cu: "create_user dp email password realm full_name short_name active is_realm_admin
       bot_type bot_owner tos_version timezone avatar_source is_mirror_dummy
       default_sending_stream default_events_register_stream default_all_public_streams
       source_profile w = Inr (user_profile, w')"
    and wf: "refs_issued_keys (db w)"
    and nid: "''id'' \<notin> set (property_types dp) \<union> set (notification_setting_types dp)"
  shows "\<exists>uid rcp sub.
       heap w' user_profile ''id'' = Some (PInt uid)
     \<and> (uid, heap w' user_profile) \<in> set (user_profiles (db w'))
     \<and> personal_recipients_of (db w') uid = [rcp]
     \<and> subscriptions_linking (db w') uid (recipient_pk rcp) = [sub]"
proof -
  let ?uid = "user_profile_seq (db w)"
  let ?rcp = "\<lparr>recipient_pk = recipient_seq (db w), type_id = ?uid, type = PERSONAL\<rparr>"
  let ?sub = "\<lparr>subscription_pk = subscription_seq (db w), user_profile_id = ?uid,
                recipient_id = recipient_seq (db w)\<rparr>"
  have nid': "''id'' \<notin> set (settings_names dp) \<or> source_profile = None"
    using nid by (simp add: settings_names_def)
  from create_user_Inr(2)[OF cu nid'] have id: "heap w' user_profile ''id'' = Some (PInt ?uid)"
    by auto
  note d = create_user_Inr(3)[OF cu nid']
  have "filter (\<lambda>rc. type rc = PERSONAL \<and> type_id rc = ?uid) (recipients (db w)) = []"
    using wf by (auto simp: refs_issued_keys_def list_all_iff filter_empty_conv)
  then have rc: "personal_recipients_of (db w') ?uid = [?rcp]"
    unfolding d by (simp add: personal_recipients_of_def)
  have "filter (\<lambda>s. user_profile_id s = ?uid \<and> recipient_id s = recipient_seq (db w))
          (subscriptions (db w)) = []"
    using wf by (auto simp: refs_issued_keys_def list_all_iff filter_empty_conv)
  then have sb: "subscriptions_linking (db w') ?uid (recipient_pk ?rcp) = [?sub]"
    unfolding d by (simp add: subscriptions_linking_def)
  have row: "(?uid, heap w' user_profile) \<in> set (user_profiles (db w'))"
    by (subst d) simp
  show ?thesis using id row rc sb by blast
qed

theorem create_user_one_recipient_one_subscription_witness:
  "refs_issued_keys (db ex_world)
   \<and> ''id'' \<notin> set (property_types ex_deps) \<union> set (notification_setting_types ex_deps)
   \<and> (\<exists>r w' uid rcp sub.
        create_user ex_deps ''alice@example.com'' (Some ''pw'') ex_realm ''Alice'' ''alice''
          True False None None None ''Europe/Paris'' ''G'' False None None None (Some 0) ex_world
          = Inr (r, w')
        \<and> heap w' r ''id'' = Some (PInt uid)
        \<and> (uid, heap w' r) \<in> set (user_profiles (db w'))
        \<and> personal_recipients_of (db w') uid = [rcp]
        \<and> subscriptions_linking (db w') uid (recipient_pk rcp) = [sub])"
proof -
  have wf: "refs_issued_keys (db ex_world)"
    by (simp add: refs_issued_keys_def ex_world_def ex_db_def)
  have nid: "''id'' \<notin> set (property_types ex_deps) \<union> set (notification_setting_types ex_deps)"
    unfolding ex_names by simp
  from ex_overlay_call obtain w' where cu:
    "create_user ex_deps ''alice@example.com'' (Some ''pw'') ex_realm ''Alice'' ''alice''
       True False None None None ''Europe/Paris'' ''G'' False None None None (Some 0) ex_world
       = Inr (2, w')"
    by blast
  from create_user_one_recipient_one_subscription[OF cu wf nid] cu wf nid
  show ?thesis by blast
qed

text \<open>
  C10. Without a source profile, the returned profile's \<open>default_all_public_streams\<close>
  is the argument when one is given, and is the model class's field default, untouched,
  when the argument is \<open>None\<close>.
\<close>

theorem default_all_public_streams_only_when_given:
  assumes cu: "create_user dp email password realm full_name short_name active is_realm_admin
       bot_type bot_owner tos_version timezone avatar_source is_mirror_dummy
       default_sending_stream default_events_register_stream default_all_public_streams
       None w = Inr (user_profile, w')"
  shows "heap w' user_profile ''default_all_public_streams'' =
           (case default_all_public_streams of
              None \<Rightarrow> field_defaults dp ''default_all_public_streams''
            | Some b \<Rightarrow> Some (PBool b))"
proof -
  from create_user_Inr(1,2)[OF cu] have
    "heap w' user_profile ''default_all_public_streams'' =
       heap (assignments (next_ref w) is_realm_admin
             avatar_source timezone default_sending_stream default_events_register_stream
             default_all_public_streams
             (snd (create_user_profile dp realm email password active bot_type full_name
                short_name bot_owner is_mirror_dummy tos_version (Some timezone)
                (Some (TUTORIAL_WAITING dp)) False w))) (next_ref w)
         ''default_all_public_streams''"
    by auto
  then show ?thesis by (simp only: prepared_attr)
qed

theorem default_all_public_streams_only_when_given_witness:
  "\<exists>r w'. create_user ex_deps ''alice@example.com'' (Some ''pw'') ex_realm ''Alice'' ''alice''
      True False None None None ''Europe/Paris'' ''G'' False None None None None ex_world
      = Inr (r, w')
     \<and> heap w' r ''default_all_public_streams'' = Some (PBool False)"
proof -
  from ex_plain_call obtain w' where cu:
    "create_user ex_deps ''alice@example.com'' (Some ''pw'') ex_realm ''Alice'' ''alice''
      True False None None None ''Europe/Paris'' ''G'' False None None None None ex_world
      = Inr (2, w')"
    by blast
  have "field_defaults ex_deps ''default_all_public_streams'' = Some (PBool False)"
    by (simp add: ex_deps_def)
  with default_all_public_streams_only_when_given[OF cu] cu show ?thesis by auto
qed

text \<open>
  C6. With a source profile, the overlay does override the full name: a call that
  passes the full name Alice and a source profile named Bob returns a profile named
  Bob.
\<close>

theorem overlay_overrides_full_name_counterexample:
  "result_profile
     (create_user ex_deps ''alice@example.com'' (Some ''pw'') ex_realm ''Alice'' ''alice''
        True False None None None ''Europe/Paris'' ''G'' False None None None (Some 0) ex_world)
     ''full_name'' = Some (PStr ''Bob'')
   \<and> heap ex_world 0 ''full_name'' = Some (PStr ''Bob'')"
  by (simp add: ex_eval result_profile_def copied_def)

text \<open>
  C6, as amended. With a source profile (an object that exists before the call), the
  returned profile's preference settings, notification settings and full name are the
  source profile's, while its email is the normalized email argument.
\<close>

theorem overlay_keeps_email_copies_settings_and_full_name:
  assumes cu: "create_user dp email password realm full_name short_name active is_realm_admin
       bot_type bot_owner tos_version timezone avatar_source is_mirror_dummy
       default_sending_stream default_events_register_stream default_all_public_streams
       (Some source_profile) w = Inr (user_profile, w')"
    and live: "source_profile < next_ref w"
    and nid: "''id'' \<notin> set (property_types dp) \<union> set (notification_setting_types dp)"
    and nem: "''email'' \<notin> set (property_types dp) \<union> set (notification_setting_types dp)"
  shows "(\<forall>n \<in> set (property_types dp) \<union> set (notification_setting_types dp) \<union> {''full_name''}.
            heap w' user_profile n = heap w source_profile n)
     \<and> heap w' user_profile ''email'' = Some (PStr (normalize_email dp email))"
proof -
  let ?w7 = "assignments (next_ref w) is_realm_admin
             avatar_source timezone default_sending_stream default_events_register_stream
             default_all_public_streams
             (snd (create_user_profile dp realm email password active bot_type full_name
                short_name bot_owner is_mirror_dummy tos_version (Some timezone)
                (Some (TUTORIAL_WAITING dp)) False w))"
  have names: "set (settings_names dp) =
      set (property_types dp) \<union> set (notification_setting_types dp) \<union> {''full_name''}"
    by (auto simp: settings_names_def)
  have nid': "''id'' \<notin> set (settings_names dp) \<or> Some source_profile = None"
    using nid by (simp add: settings_names_def)
  have src: "heap ?w7 source_profile = heap w source_profile"
    using live by (intro prepared_other) simp
  from create_user_Inr(2)[OF cu nid'] have "heap w' user_profile =
      (copied (settings_names dp) (heap ?w7 source_profile) (heap ?w7 (next_ref w)))
      (''id'' \<mapsto> PInt (user_profile_seq (db w)))"
    by auto
  then have h: "heap w' user_profile =
      (copied (settings_names dp) (heap w source_profile) (heap ?w7 (next_ref w)))
      (''id'' \<mapsto> PInt (user_profile_seq (db w)))"
    by (simp only: src)
  have "\<forall>n \<in> set (settings_names dp). heap w' user_profile n = heap w source_profile n"
    unfolding h using nid' by (auto simp: copied_def)
  moreover have "''email'' \<notin> set (settings_names dp)" using nem by (simp add: settings_names_def)
  then have "heap w' user_profile ''email'' = Some (PStr (normalize_email dp email))"
    unfolding h by (simp add: copied_def prepared_attr)
  ultimately show ?thesis unfolding names by blast
qed

theorem overlay_keeps_email_copies_settings_and_full_name_witness:
  "0 < next_ref ex_world
   \<and> ''id'' \<notin> set (property_types ex_deps) \<union> set (notification_setting_types ex_deps)
   \<and> ''email'' \<notin> set (property_types ex_deps) \<union> set (notification_setting_types ex_deps)
   \<and> (\<exists>r w'. create_user ex_deps ''alice@example.com'' (Some ''pw'') ex_realm ''Alice'' ''alice''
        True False None None None ''Europe/Paris'' ''G'' False None None None (Some 0) ex_world
        = Inr (r, w')
      \<and> heap w' r ''timezone'' = Some (PStr ''UTC'')
      \<and> heap w' r ''enable_sounds'' = Some (PBool False)
      \<and> heap w' r ''full_name'' = Some (PStr ''Bob'')
      \<and> heap w' r ''email'' = Some (PStr ''alice@example.com''))"
proof -
  have live: "0 < next_ref ex_world" by (simp add: ex_world_def)
  have nid: "''id'' \<notin> set (property_types ex_deps) \<union> set (notification_setting_types ex_deps)"
    and nem: "''email'' \<notin> set (property_types ex_deps) \<union> set (notification_setting_types ex_deps)"
    unfolding ex_names by simp_all
  from ex_overlay_call obtain w' where cu:
    "create_user ex_deps ''alice@example.com'' (Some ''pw'') ex_realm ''Alice'' ''alice''
       True False None None None ''Europe/Paris'' ''G'' False None None None (Some 0) ex_world
       = Inr (2, w')"
    by blast
  have src: "heap ex_world 0 ''timezone'' = Some (PStr ''UTC'')"
    "heap ex_world 0 ''enable_sounds'' = Some (PBool False)"
    "heap ex_world 0 ''full_name'' = Some (PStr ''Bob'')"
    by (simp_all add: ex_world_def ex_source_def)
  have ne: "normalize_email ex_deps ''alice@example.com'' = ''alice@example.com''"
    by (simp add: ex_deps_def)
  from overlay_keeps_email_copies_settings_and_full_name[OF cu live nid nem]
  have "\<forall>n \<in> {''timezone'', ''enable_sounds'', ''full_name''}. heap w' 2 n = heap ex_world 0 n"
    and "heap w' 2 ''email'' = Some (PStr ''alice@example.com'')"
    unfolding ex_names ne by auto
  then show ?thesis using live nid nem cu src by auto
qed

text \<open>
  C3. The profile, its Recipient and its Subscription are not persisted all or nothing:
  on a database where the persistence layer rejects the new profile's Recipient,
  \<open>create_user\<close> raises, and the profile row it saved before (key 2) is in the
  database it leaves behind.
\<close>

theorem create_user_not_atomic_counterexample:
  "raised (create_user ex_deps ''alice@example.com'' (Some ''pw'') ex_realm ''Alice'' ''alice''
      True False None None None ''Europe/Paris'' ''G'' False None None None None ex_world_orphan)
     = Some (DatabaseError ''Recipient'')
   \<and> map fst (user_profiles (db (outcome_world
        (create_user ex_deps ''alice@example.com'' (Some ''pw'') ex_realm ''Alice'' ''alice''
           True False None None None ''Europe/Paris'' ''G'' False None None None None
           ex_world_orphan)))) = [1, 2]
   \<and> map fst (user_profiles (db ex_world_orphan)) = [1]"
  by (simp add: ex_eval raised_def)

text \<open>
  C3, as amended. \<open>create_user\<close> saves the profile first and rolls nothing back: when
  creating the Recipient or the Subscription fails, the error propagates, the profile
  row saved under the next key stays in the database, and no Subscription was added.
\<close>

theorem create_user_keeps_profile_when_related_rows_fail:
  assumes cu: "create_user dp email password realm full_name short_name active is_realm_admin
       bot_type bot_owner tos_version timezone avatar_source is_mirror_dummy
       default_sending_stream default_events_register_stream default_all_public_streams
       source_profile w = Inl (DatabaseError tbl, w')"
    and tbl: "tbl = ''Recipient'' \<or> tbl = ''Subscription''"
    and nid: "''id'' \<notin> set (property_types dp) \<union> set (notification_setting_types dp)"
  shows "user_profiles (db w') =
           user_profiles (db w) @ [(user_profile_seq (db w), heap w' (next_ref w))]
     \<and> heap w' (next_ref w) ''id'' = Some (PInt (user_profile_seq (db w)))
     \<and> subscriptions (db w') = subscriptions (db w)"
proof -
  let ?up = "next_ref w"
  let ?w7 = "assignments (next_ref w) is_realm_admin
             avatar_source timezone default_sending_stream default_events_register_stream
             default_all_public_streams
             (snd (create_user_profile dp realm email password active bot_type full_name
                short_name bot_owner is_mirror_dummy tos_version (Some timezone)
                (Some (TUTORIAL_WAITING dp)) False w))"
  let ?ov = "(case source_profile of None \<Rightarrow> Inr ((), ?w7)
              | Some s \<Rightarrow> copy_user_settings dp s ?up ?w7)"
  note fin = cu[unfolded create_user_eq]
  have nid': "''id'' \<notin> set (settings_names dp)" using nid by (simp add: settings_names_def)
  have new: "heap ?w7 ?up ''id'' = Some PNone" by (rule prepared_attr)
  have saved: "user_profiles (db w9) =
           user_profiles (db w) @ [(user_profile_seq (db w), heap w9 ?up)]
     \<and> heap w9 ?up ''id'' = Some (PInt (user_profile_seq (db w)))
     \<and> subscriptions (db w9) = subscriptions (db w)"
    if ov: "?ov = Inr ((), w8)" and sv: "save dp ?up w8 = Inr ((), w9)" for w8 w9
  proof -
    have w8: "w8 = ?w7\<lparr>heap := (heap ?w7)(?up :=
           (case source_profile of None \<Rightarrow> heap ?w7 ?up
            | Some s \<Rightarrow> copied (settings_names dp) (heap ?w7 s) (heap ?w7 ?up)))\<rparr>"
      using overlay_Inr[OF ov] by blast
    have "heap w8 ?up = (case source_profile of None \<Rightarrow> heap ?w7 ?up
            | Some s \<Rightarrow> copied (settings_names dp) (heap ?w7 s) (heap ?w7 ?up))"
      by (subst w8) simp
    then have id8: "heap w8 ?up ''id'' = Some PNone"
      using new nid' by (auto simp: copied_def split: option.splits)
    have d8: "db w8 = db w" by (subst w8) (simp add: prepared_db)
    show ?thesis by (subst save_new[OF id8 sv])+ (simp add: d8)
  qed
  from fin show ?thesis
  proof (cases rule: finish_create_InlE)
    case (overlay s)
    then have "copy_settings (settings_names dp) s ?up ?w7 = Inl (DatabaseError tbl, w')"
      by (simp add: copy_user_settings_eq)
    from copy_settings_Inl[OF this] show ?thesis by simp
  next
    case (save w8)
    from save_Inl[OF save(2)] tbl show ?thesis by auto
  next
    case (no_id w8)
    then show ?thesis by simp
  next
    case (recipient w8 w9 pk)
    from Recipient_objects_create_Inl[OF recipient(4)] have "w' = w9" by simp
    with saved[OF recipient(1,2)] show ?thesis by simp
  next
    case (subscription w8 w9 pk rcp w10)
    from Subscription_objects_create_Inl[OF subscription(5)] have "w' = w10" by simp
    moreover from Recipient_objects_create_Inr[OF subscription(4)]
    have "heap w10 = heap w9" "user_profiles (db w10) = user_profiles (db w9)"
      "subscriptions (db w10) = subscriptions (db w9)"
      by auto
    ultimately show ?thesis using saved[OF subscription(1,2)] by simp
  qed
qed

theorem create_user_keeps_profile_when_related_rows_fail_witness:
  "(''Recipient'' = ''Recipient'' \<or> ''Recipient'' = ''Subscription'')
   \<and> ''id'' \<notin> set (property_types ex_deps) \<union> set (notification_setting_types ex_deps)
   \<and> (\<exists>w'. create_user ex_deps ''alice@example.com'' (Some ''pw'') ex_realm ''Alice'' ''alice''
        True False None None None ''Europe/Paris'' ''G'' False None None None None
        ex_world_orphan = Inl (DatabaseError ''Recipient'', w')
      \<and> user_profiles (db w') = user_profiles (db ex_world_orphan) @ [(2, heap w' 2)]
      \<and> heap w' 2 ''id'' = Some (PInt 2)
      \<and> subscriptions (db w') = subscriptions (db ex_world_orphan))"
proof -
  have t: "''Recipient'' = ''Recipient'' \<or> ''Recipient'' = ''Subscription''" by simp
  have nid: "''id'' \<notin> set (property_types ex_deps) \<union> set (notification_setting_types ex_deps)"
    unfolding ex_names by simp
  from ex_orphan_call obtain w' where cu:
    "create_user ex_deps ''alice@example.com'' (Some ''pw'') ex_realm ''Alice'' ''alice''
        True False None None None ''Europe/Paris'' ''G'' False None None None None
        ex_world_orphan = Inl (DatabaseError ''Recipient'', w')"
    by blast
  have ex: "next_ref ex_world_orphan = 2" "user_profile_seq (db ex_world_orphan) = 2"
    by (simp_all add: ex_world_orphan_def ex_world_def ex_db_def)
  from create_user_keeps_profile_when_related_rows_fail[OF cu t nid] cu nid
  show ?thesis unfolding ex by auto
qed

end
